theory Spec2Isabelle
  imports Complex_Main "HOL-Library.Word" "HOL-Library.AList"
begin

section \<open>AirControlX: a shallow embedding of the modular air-traffic-control core\<close>

text \<open>
  The development follows the C++ classes \<^verbatim>\<open>Aircraft\<close>, \<^verbatim>\<open>Runway\<close>, \<^verbatim>\<open>Flight\<close>,
  \<^verbatim>\<open>Airline\<close> and \<^verbatim>\<open>SpeedMonitor\<close>. Modelling conventions:

  \<^item> every class is a record with the member names of the source; a method \<^verbatim>\<open>C::m\<close> is
    the constant \<open>C_m\<close>, which takes the object (and the heap it reaches) and returns the
    method's result together with the updated object;
  \<^item> a \<^verbatim>\<open>shared_ptr<Aircraft>\<close> is an address option (\<open>None\<close> is the null pointer) into
    a heap \<open>nat \<Rightarrow> Aircraft\<close>; a runway reference is an address option into a heap of
    runways. Runways are owned by the controller for the whole run, so a weak reference
    to one never expires in the model;
  \<^item> the speed of an aircraft is a \<open>double\<close> with infinities and NaN, and arithmetic on
    speeds rounds through a parameter \<open>rnd\<close>; the other \<^verbatim>\<open>double\<close> values (simulation
    times, plan offsets, table entries, accumulated usage time) are finite and modelled
    as \<open>real\<close>;
  \<^item> \<^verbatim>\<open>int\<close> counters are 32-bit words;
  \<^item> a reading of \<^verbatim>\<open>std::chrono::steady_clock\<close> is an integer number of nanosecond
    ticks and is an argument of the method that reads the clock;
  \<^item> every draw from a random distribution is an argument of the method that draws;
  \<^item> a method that does not return has the result \<open>None\<close>. This is what happens when
    a method dereferences a null pointer, and when a method that holds its object's
    \<^verbatim>\<open>std::mutex\<close> calls another method of the same object that locks it again: the
    mutex is not recursive, and the second \<^verbatim>\<open>lock_guard\<close> never acquires it. The
    classes \<^verbatim>\<open>Flight\<close> and \<^verbatim>\<open>Airline\<close>, whose locking methods call one another, carry
    the state of their mutex in the member \<open>m_mutex\<close>. The methods of \<^verbatim>\<open>Aircraft\<close>,
    \<^verbatim>\<open>Runway\<close> and \<^verbatim>\<open>SpeedMonitor\<close> modelled here lock once and call no locking method
    of their own object, so their mutex is left out;
  \<^item> the model is sequential: one thread runs one method at a time.
\<close>

subsection \<open>Constants.h\<close>

datatype AircraftType = COMMERCIAL | CARGO | EMERGENCY

datatype FlightDirection = NORTH | SOUTH | EAST | WEST

datatype RunwayId = RWY_A | RWY_B | RWY_C

datatype FlightPhase =
    HOLDING | APPROACH | LANDING | TAXI_IN | AT_GATE_ARRIVAL
  | AT_GATE_DEPARTURE | TAXI_OUT | TAKEOFF_ROLL | CLIMB | CRUISE

record SpeedLimits =
  min_lim :: real
  max_lim :: real


definition EMERGENCY_PROBABILITY :: "(FlightDirection \<times> real) list" where
  "EMERGENCY_PROBABILITY =
     [(NORTH, 10 / 100), (SOUTH, 5 / 100), (EAST, 15 / 100), (WEST, 20 / 100)]"

definition SPEED_LIMITS :: "(FlightPhase \<times> SpeedLimits) list" where
  "SPEED_LIMITS =
     [(HOLDING, \<lparr>min_lim = 400, max_lim = 600\<rparr>),
      (APPROACH, \<lparr>min_lim = 240, max_lim = 290\<rparr>),
      (LANDING, \<lparr>min_lim = 30, max_lim = 240\<rparr>),
      (TAXI_IN, \<lparr>min_lim = 15, max_lim = 30\<rparr>),
      (AT_GATE_ARRIVAL, \<lparr>min_lim = 0, max_lim = 5\<rparr>),
      (AT_GATE_DEPARTURE, \<lparr>min_lim = 0, max_lim = 5\<rparr>),
      (TAXI_OUT, \<lparr>min_lim = 15, max_lim = 30\<rparr>),
      (TAKEOFF_ROLL, \<lparr>min_lim = 0, max_lim = 290\<rparr>),
      (CLIMB, \<lparr>min_lim = 250, max_lim = 463\<rparr>),
      (CRUISE, \<lparr>min_lim = 800, max_lim = 900\<rparr>)]"

subsection \<open>Speeds as IEEE doubles\<close>

text \<open>
  A \<^verbatim>\<open>double\<close> is a finite value, an infinity or NaN. Comparisons with NaN are false.
  The sum, difference or quotient of finite values is the exact result passed through
  \<open>rnd\<close>, the rounding of a real number to a \<^verbatim>\<open>double\<close> (which may overflow to an
  infinity); nothing is assumed about \<open>rnd\<close>.
\<close>

datatype double = Finite real | PosInf | NegInf | NaN

fun dless :: "double \<Rightarrow> double \<Rightarrow> bool" where
  "dless (Finite x) (Finite y) = (x < y)"
| "dless (Finite x) PosInf = True"
| "dless NegInf (Finite y) = True"
| "dless NegInf PosInf = True"
| "dless _ _ = False"

fun dle :: "double \<Rightarrow> double \<Rightarrow> bool" where
  "dle (Finite x) (Finite y) = (x \<le> y)"
| "dle (Finite x) PosInf = True"
| "dle NegInf (Finite y) = True"
| "dle NegInf PosInf = True"
| "dle PosInf PosInf = True"
| "dle NegInf NegInf = True"
| "dle _ _ = False"

fun dadd :: "(real \<Rightarrow> double) \<Rightarrow> double \<Rightarrow> double \<Rightarrow> double" where
  "dadd rnd (Finite x) (Finite y) = rnd (x + y)"
| "dadd rnd NaN _ = NaN"
| "dadd rnd _ NaN = NaN"
| "dadd rnd PosInf NegInf = NaN"
| "dadd rnd NegInf PosInf = NaN"
| "dadd rnd PosInf _ = PosInf"
| "dadd rnd _ PosInf = PosInf"
| "dadd rnd NegInf _ = NegInf"
| "dadd rnd _ NegInf = NegInf"

fun dneg :: "double \<Rightarrow> double" where
  "dneg (Finite x) = Finite (- x)"
| "dneg PosInf = NegInf"
| "dneg NegInf = PosInf"
| "dneg NaN = NaN"

definition dsub :: "(real \<Rightarrow> double) \<Rightarrow> double \<Rightarrow> double \<Rightarrow> double" where
  "dsub rnd a b = dadd rnd a (dneg b)"

fun dabs :: "double \<Rightarrow> double" where
  "dabs (Finite x) = Finite \<bar>x\<bar>"
| "dabs PosInf = PosInf"
| "dabs NegInf = PosInf"
| "dabs NaN = NaN"

text \<open>Division of a \<^verbatim>\<open>double\<close> by a count (a \<^verbatim>\<open>size_t\<close> converted to \<^verbatim>\<open>double\<close>).\<close>

fun ddiv_count :: "(real \<Rightarrow> double) \<Rightarrow> double \<Rightarrow> nat \<Rightarrow> double" where
  "ddiv_count rnd (Finite x) k =
     (if k = 0 then (if x = 0 then NaN else if 0 < x then PosInf else NegInf)
      else rnd (x / real k))"
| "ddiv_count rnd PosInf k = PosInf"
| "ddiv_count rnd NegInf k = NegInf"
| "ddiv_count rnd NaN k = NaN"

subsection \<open>Aircraft\<close>

text \<open>
  \<open>m_airline\<close> holds the name of the airline the pointer refers to (the only member of
  the airline that is read through it), or \<open>None\<close> for a null pointer.
\<close>

record Aircraft =
  m_id :: string
  m_type :: AircraftType
  m_direction :: FlightDirection
  m_currentPhase :: FlightPhase
  m_currentSpeed :: double
  m_airline :: "string option"
  m_assignedRunway :: "RunwayId option"
  m_hasGroundFault :: bool
  m_activeAVNs :: "string list"

type_synonym aircraft_heap = "nat \<Rightarrow> Aircraft"

definition Aircraft_isArrival :: "Aircraft \<Rightarrow> bool" where
  "Aircraft_isArrival a \<longleftrightarrow> m_direction a = NORTH \<or> m_direction a = SOUTH"

definition Aircraft_assignRunway :: "RunwayId \<Rightarrow> Aircraft \<Rightarrow> Aircraft" where
  "Aircraft_assignRunway runwayId a = a\<lparr>m_assignedRunway := Some runwayId\<rparr>"

definition Aircraft_getNextPhase :: "Aircraft \<Rightarrow> FlightPhase" where
  "Aircraft_getNextPhase a =
     (case m_currentPhase a of
        HOLDING \<Rightarrow> APPROACH
      | APPROACH \<Rightarrow> LANDING
      | LANDING \<Rightarrow> TAXI_IN
      | TAXI_IN \<Rightarrow> AT_GATE_ARRIVAL
      | AT_GATE_DEPARTURE \<Rightarrow> TAXI_OUT
      | TAXI_OUT \<Rightarrow> TAKEOFF_ROLL
      | TAKEOFF_ROLL \<Rightarrow> CLIMB
      | CLIMB \<Rightarrow> CRUISE
      | AT_GATE_ARRIVAL \<Rightarrow> m_currentPhase a
      | CRUISE \<Rightarrow> m_currentPhase a)"

definition Aircraft_isValidTransition :: "Aircraft \<Rightarrow> FlightPhase \<Rightarrow> bool" where
  "Aircraft_isValidTransition a nextPhase =
     (case m_currentPhase a of
        HOLDING \<Rightarrow> nextPhase = APPROACH
      | APPROACH \<Rightarrow> nextPhase = LANDING
      | LANDING \<Rightarrow> nextPhase = TAXI_IN
      | TAXI_IN \<Rightarrow> nextPhase = AT_GATE_ARRIVAL
      | AT_GATE_ARRIVAL \<Rightarrow> False
      | AT_GATE_DEPARTURE \<Rightarrow> nextPhase = TAXI_OUT
      | TAXI_OUT \<Rightarrow> nextPhase = TAKEOFF_ROLL
      | TAKEOFF_ROLL \<Rightarrow> nextPhase = CLIMB
      | CLIMB \<Rightarrow> nextPhase = CRUISE
      | CRUISE \<Rightarrow> False)"

text \<open>
  \<open>drawn\<close> is the value that
  \<^verbatim>\<open>std::uniform_real_distribution<double>(limits.min, limits.max)\<close> returns, a finite
  speed between the two limits.
\<close>

definition Aircraft_generateRandomSpeedForPhase :: "FlightPhase \<Rightarrow> real \<Rightarrow> double" where
  "Aircraft_generateRandomSpeedForPhase ph drawn =
     (case map_of SPEED_LIMITS ph of
        None \<Rightarrow> Finite 0
      | Some limits \<Rightarrow> Finite drawn)"

definition Aircraft_transitionToNextPhase :: "real \<Rightarrow> Aircraft \<Rightarrow> bool \<times> Aircraft" where
  "Aircraft_transitionToNextPhase drawn a =
     (let nextPhase = Aircraft_getNextPhase a in
      if Aircraft_isValidTransition a nextPhase
      then (True, a\<lparr>m_currentPhase := nextPhase,
                     m_currentSpeed := Aircraft_generateRandomSpeedForPhase nextPhase drawn\<rparr>)
      else (False, a))"

text \<open>
  \<^verbatim>\<open>std::clamp(v, lo, hi)\<close>, that is \<^verbatim>\<open>(v < lo) ? lo : (hi < v) ? hi : v\<close>: a NaN passes
  through, since both comparisons are false.
\<close>

definition clamp :: "double \<Rightarrow> double \<Rightarrow> double \<Rightarrow> double" where
  "clamp v lo hi = (if dless v lo then lo else if dless hi v then hi else v)"

definition Aircraft_updateSpeed ::
  "(real \<Rightarrow> double) \<Rightarrow> double \<Rightarrow> Aircraft \<Rightarrow> bool \<times> Aircraft" where
  "Aircraft_updateSpeed rnd speedDelta a =
     (let newSpeed = dadd rnd (m_currentSpeed a) speedDelta;
          newSpeed' = (case map_of SPEED_LIMITS (m_currentPhase a) of
                         Some limits \<Rightarrow>
                           clamp newSpeed (Finite (min_lim limits)) (Finite (max_lim limits))
                       | None \<Rightarrow> newSpeed)
      in (True, a\<lparr>m_currentSpeed := newSpeed'\<rparr>))"

definition Aircraft_setSpeed :: "double \<Rightarrow> Aircraft \<Rightarrow> bool \<times> Aircraft" where
  "Aircraft_setSpeed newSpeed a = (True, a\<lparr>m_currentSpeed := newSpeed\<rparr>)"

definition Aircraft_isSpeedValid :: "Aircraft \<Rightarrow> bool" where
  "Aircraft_isSpeedValid a =
     (case map_of SPEED_LIMITS (m_currentPhase a) of
        None \<Rightarrow> False
      | Some limits \<Rightarrow>
          dle (Finite (min_lim limits)) (m_currentSpeed a)
          \<and> dle (m_currentSpeed a) (Finite (max_lim limits)))"

definition Aircraft_issueAVN :: "string \<Rightarrow> Aircraft \<Rightarrow> Aircraft" where
  "Aircraft_issueAVN reason a = a\<lparr>m_activeAVNs := m_activeAVNs a @ [reason]\<rparr>"

definition isGroundPhase :: "FlightPhase \<Rightarrow> bool" where
  "isGroundPhase p \<longleftrightarrow>
     p = TAXI_IN \<or> p = AT_GATE_ARRIVAL \<or> p = AT_GATE_DEPARTURE \<or> p = TAXI_OUT"

text \<open>\<^verbatim>\<open>Aircraft::simulateGroundFault\<close>; \<open>faultDraw\<close> is the uniform draw on \<open>[0, 1)\<close>.\<close>

definition Aircraft_simulateGroundFault :: "real \<Rightarrow> Aircraft \<Rightarrow> bool \<times> Aircraft" where
  "Aircraft_simulateGroundFault faultDraw a =
     (if isGroundPhase (m_currentPhase a)
      then (if faultDraw < 5 / 100 then (True, a\<lparr>m_hasGroundFault := True\<rparr>) else (False, a))
      else (False, a))"

text \<open>
  \<^verbatim>\<open>Aircraft::update\<close>: \<open>speedDelta\<close> is the draw from the normal distribution,
  \<open>faultDraw\<close> the draw from the uniform distribution on \<open>[0, 1)\<close>.
\<close>

definition Aircraft_update ::
  "(real \<Rightarrow> double) \<Rightarrow> real \<Rightarrow> real \<Rightarrow> real \<Rightarrow> Aircraft \<Rightarrow> Aircraft" where
  "Aircraft_update rnd deltaTime speedDelta faultDraw a =
     (let a1 = a\<lparr>m_currentSpeed := dadd rnd (m_currentSpeed a) (Finite speedDelta)\<rparr> in
      if isGroundPhase (m_currentPhase a1) \<and> \<not> m_hasGroundFault a1
      then (if faultDraw < (1 / 1000) * deltaTime then a1\<lparr>m_hasGroundFault := True\<rparr> else a1)
      else a1)"

text \<open>The constructor, with \<^verbatim>\<open>setInitialPhase\<close> and \<^verbatim>\<open>setInitialSpeed\<close>.\<close>

definition Aircraft_new ::
  "string \<Rightarrow> AircraftType \<Rightarrow> FlightDirection \<Rightarrow> string option \<Rightarrow> real \<Rightarrow> Aircraft" where
  "Aircraft_new ident type direction airline drawn =
     (let a0 = \<lparr>m_id = ident, m_type = type, m_direction = direction,
                m_currentPhase = HOLDING, m_currentSpeed = Finite 0, m_airline = airline,
                m_assignedRunway = None, m_hasGroundFault = False, m_activeAVNs = []\<rparr>;
          a1 = a0\<lparr>m_currentPhase := (if Aircraft_isArrival a0 then HOLDING
                                       else AT_GATE_DEPARTURE)\<rparr>
      in a1\<lparr>m_currentSpeed := Aircraft_generateRandomSpeedForPhase (m_currentPhase a1) drawn\<rparr>)"

subsection \<open>Runway\<close>

datatype Runway_Status = AVAILABLE | IN_USE | MAINTENANCE | WEATHER_CLOSED

record Runway =
  m_id :: RunwayId
  m_status :: Runway_Status
  m_assignedAircraft :: "nat option"
  m_usageCount :: "32 word"
  m_totalUsageTime :: real
  m_lastAssignmentTime :: int

type_synonym runway_heap = "nat \<Rightarrow> Runway"

definition Runway_new :: "int \<Rightarrow> RunwayId \<Rightarrow> Runway" where
  "Runway_new now ident =
     \<lparr>m_id = ident, m_status = AVAILABLE, m_assignedAircraft = None, m_usageCount = 0,
      m_totalUsageTime = 0, m_lastAssignmentTime = now\<rparr>"

definition Runway_isValidRunwayForDirection :: "RunwayId \<Rightarrow> FlightDirection \<Rightarrow> bool" where
  "Runway_isValidRunwayForDirection ident direction =
     (if ident = RWY_A then direction = NORTH \<or> direction = SOUTH
      else if ident = RWY_B then direction = EAST \<or> direction = WEST
      else if ident = RWY_C then True
      else False)"

definition Runway_isValidRunwayForAircraftType :: "RunwayId \<Rightarrow> AircraftType \<Rightarrow> bool" where
  "Runway_isValidRunwayForAircraftType ident type =
     (if ident = RWY_A \<or> ident = RWY_B then True
      else if ident = RWY_C then type = CARGO \<or> type = AircraftType.EMERGENCY
      else False)"

definition Runway_canUseForDirection :: "Runway \<Rightarrow> FlightDirection \<Rightarrow> bool" where
  "Runway_canUseForDirection r direction =
     Runway_isValidRunwayForDirection (Runway.m_id r) direction"

definition Runway_canUseForAircraftType :: "Runway \<Rightarrow> AircraftType \<Rightarrow> bool" where
  "Runway_canUseForAircraftType r type =
     Runway_isValidRunwayForAircraftType (Runway.m_id r) type"

text \<open>
  \<^verbatim>\<open>duration_cast<seconds>(now - m_lastAssignmentTime).count()\<close>: whole seconds between
  two clock readings, truncated towards zero.
\<close>

definition duration_seconds :: "int \<Rightarrow> int \<Rightarrow> int" where
  "duration_seconds now start =
     sgn (now - start) * (\<bar>now - start\<bar> div 1000000000)"

definition Runway_assignAircraft ::
  "int \<Rightarrow> nat option \<Rightarrow> Runway \<Rightarrow> aircraft_heap \<Rightarrow> bool \<times> Runway \<times> aircraft_heap" where
  "Runway_assignAircraft now aircraft r h =
     (if Runway.m_status r \<noteq> AVAILABLE then (False, r, h)
      else case aircraft of
        None \<Rightarrow> (False, r, h)
      | Some p \<Rightarrow>
          if \<not> Runway_canUseForDirection r (m_direction (h p)) then (False, r, h)
          else if \<not> Runway_canUseForAircraftType r (m_type (h p)) then (False, r, h)
          else (True,
                r\<lparr>m_assignedAircraft := Some p,
                  Runway.m_status := IN_USE,
                  m_lastAssignmentTime := now,
                  m_usageCount := m_usageCount r + 1\<rparr>,
                h(p := Aircraft_assignRunway (Runway.m_id r) (h p))))"

definition Runway_releaseAircraft :: "int \<Rightarrow> nat option \<Rightarrow> Runway \<Rightarrow> bool \<times> Runway" where
  "Runway_releaseAircraft now aircraft r =
     (if Runway.m_status r \<noteq> IN_USE then (False, r)
      else if m_assignedAircraft r = None \<or> m_assignedAircraft r \<noteq> aircraft then (False, r)
      else (True,
            r\<lparr>m_totalUsageTime :=
                  m_totalUsageTime r + real_of_int (duration_seconds now (m_lastAssignmentTime r)),
              m_assignedAircraft := None,
              Runway.m_status := AVAILABLE\<rparr>))"

definition Runway_setStatus :: "int \<Rightarrow> Runway_Status \<Rightarrow> Runway \<Rightarrow> bool \<times> Runway" where
  "Runway_setStatus now status r =
     (let r1 = (if Runway.m_status r = IN_USE \<and> (status = MAINTENANCE \<or> status = WEATHER_CLOSED)
                then (if m_assignedAircraft r \<noteq> None
                      then r\<lparr>m_totalUsageTime :=
                               m_totalUsageTime r
                               + real_of_int (duration_seconds now (m_lastAssignmentTime r))\<rparr>
                      else r)
                else r);
          r2 = r1\<lparr>Runway.m_status := status\<rparr>;
          r3 = (if status \<noteq> IN_USE then r2\<lparr>m_assignedAircraft := None\<rparr> else r2)
      in (True, r3))"

subsection \<open>Flight\<close>

datatype Flight_Status = SCHEDULED | ACTIVE | COMPLETED | CANCELED | DIVERTED | EMERGENCY

text \<open>
  A plan step binds one of three closures: the phase transition of the aircraft, the
  release of the runway followed by the phase transition, or \<^verbatim>\<open>this->complete()\<close>.
\<close>

datatype PlanOperation = TransitionOp | ReleaseThenTransitionOp | CompleteOp

record FlightPlanStep =
  operation :: PlanOperation
  relativeTimeOffset :: real

text \<open>\<open>m_mutex\<close> is true while a method of the flight holds the flight's mutex.\<close>

record Flight =
  m_id :: string
  m_aircraft :: "nat option"
  m_status :: Flight_Status
  m_isEmergency :: bool
  m_scheduledTime :: real
  m_activationTime :: real
  m_estimatedCompletionTime :: real
  m_statusReason :: string
  m_assignedRunway :: "nat option"
  m_flightPlan :: "FlightPlanStep list"
  m_currentPlanStep :: nat
  m_mutex :: bool

record World =
  aircraft :: aircraft_heap
  runways :: runway_heap

text \<open>
  \<^verbatim>\<open>std::lock_guard<std::mutex> lock(m_mutex)\<close> at the head of a method: the method goes
  on with the mutex held, or never goes on when the mutex is held already. Every return
  of the method releases the mutex.
\<close>

definition Flight_lock :: "Flight \<Rightarrow> Flight option" where
  "Flight_lock f = (if Flight.m_mutex f then None else Some (f\<lparr>Flight.m_mutex := True\<rparr>))"

definition Flight_unlock :: "Flight \<Rightarrow> Flight" where
  "Flight_unlock f = f\<lparr>Flight.m_mutex := False\<rparr>"

definition Flight_isValidStatusTransition :: "Flight \<Rightarrow> Flight_Status \<Rightarrow> bool" where
  "Flight_isValidStatusTransition f newStatus =
     (case Flight.m_status f of
        SCHEDULED \<Rightarrow> newStatus = ACTIVE \<or> newStatus = Flight_Status.EMERGENCY
                      \<or> newStatus = CANCELED
      | ACTIVE \<Rightarrow> newStatus = COMPLETED \<or> newStatus = CANCELED \<or> newStatus = DIVERTED
                   \<or> newStatus = Flight_Status.EMERGENCY
      | Flight_Status.EMERGENCY \<Rightarrow>
          newStatus = COMPLETED \<or> newStatus = CANCELED \<or> newStatus = DIVERTED
      | COMPLETED \<Rightarrow> False
      | CANCELED \<Rightarrow> False
      | DIVERTED \<Rightarrow> False)"

definition Flight_calculateEstimatedCompletionTime :: "Flight \<Rightarrow> Flight" where
  "Flight_calculateEstimatedCompletionTime f =
     (if m_flightPlan f = [] then f\<lparr>m_estimatedCompletionTime := 0\<rparr>
      else
        let lastStepTime = relativeTimeOffset (last (m_flightPlan f)) in
        if Flight.m_status f = ACTIVE \<or> Flight.m_status f = Flight_Status.EMERGENCY
        then (if m_activationTime f > 0
              then f\<lparr>m_estimatedCompletionTime := m_activationTime f + lastStepTime\<rparr>
              else f)
        else f\<lparr>m_estimatedCompletionTime := m_scheduledTime f + lastStepTime\<rparr>)"

definition Flight_createArrivalFlightPlan :: "Flight \<Rightarrow> bool \<times> Flight" where
  "Flight_createArrivalFlightPlan f =
     (if m_aircraft f = None then (False, f)
      else (True,
            f\<lparr>m_flightPlan :=
                 [\<lparr>operation = TransitionOp, relativeTimeOffset = 30\<rparr>,
                  \<lparr>operation = TransitionOp, relativeTimeOffset = 60\<rparr>,
                  \<lparr>operation = ReleaseThenTransitionOp, relativeTimeOffset = 90\<rparr>,
                  \<lparr>operation = TransitionOp, relativeTimeOffset = 120\<rparr>,
                  \<lparr>operation = CompleteOp, relativeTimeOffset = 150\<rparr>],
              m_currentPlanStep := 0\<rparr>))"

definition Flight_createDepartureFlightPlan :: "Flight \<Rightarrow> bool \<times> Flight" where
  "Flight_createDepartureFlightPlan f =
     (if m_aircraft f = None then (False, f)
      else (True,
            f\<lparr>m_flightPlan :=
                 [\<lparr>operation = TransitionOp, relativeTimeOffset = 30\<rparr>,
                  \<lparr>operation = TransitionOp, relativeTimeOffset = 60\<rparr>,
                  \<lparr>operation = TransitionOp, relativeTimeOffset = 75\<rparr>,
                  \<lparr>operation = ReleaseThenTransitionOp, relativeTimeOffset = 90\<rparr>,
                  \<lparr>operation = CompleteOp, relativeTimeOffset = 120\<rparr>],
              m_currentPlanStep := 0\<rparr>))"

definition Flight_createEmergencyFlightPlan :: "Flight \<Rightarrow> World \<Rightarrow> bool \<times> Flight" where
  "Flight_createEmergencyFlightPlan f w =
     (case m_aircraft f of
        None \<Rightarrow> (False, f)
      | Some p \<Rightarrow>
          if Aircraft_isArrival (aircraft w p)
          then (True,
                f\<lparr>m_flightPlan :=
                     [\<lparr>operation = TransitionOp, relativeTimeOffset = 15\<rparr>,
                      \<lparr>operation = TransitionOp, relativeTimeOffset = 30\<rparr>,
                      \<lparr>operation = ReleaseThenTransitionOp, relativeTimeOffset = 45\<rparr>,
                      \<lparr>operation = TransitionOp, relativeTimeOffset = 60\<rparr>,
                      \<lparr>operation = CompleteOp, relativeTimeOffset = 75\<rparr>],
                  m_currentPlanStep := 0\<rparr>)
          else (True,
                f\<lparr>m_flightPlan :=
                     [\<lparr>operation = TransitionOp, relativeTimeOffset = 15\<rparr>,
                      \<lparr>operation = TransitionOp, relativeTimeOffset = 30\<rparr>,
                      \<lparr>operation = TransitionOp, relativeTimeOffset = 75 / 2\<rparr>,
                      \<lparr>operation = ReleaseThenTransitionOp, relativeTimeOffset = 45\<rparr>,
                      \<lparr>operation = CompleteOp, relativeTimeOffset = 60\<rparr>],
                  m_currentPlanStep := 0\<rparr>))"

text \<open>\<^verbatim>\<open>Flight::createFlightPlan\<close> is public and takes the mutex.\<close>

definition Flight_createFlightPlan :: "Flight \<Rightarrow> World \<Rightarrow> (bool \<times> Flight) option" where
  "Flight_createFlightPlan f0 w =
     (case Flight_lock f0 of
        None \<Rightarrow> None
      | Some f \<Rightarrow>
          let f1 = f\<lparr>m_flightPlan := [], m_currentPlanStep := 0\<rparr> in
          (case m_aircraft f1 of
             Some p \<Rightarrow>
               (case (if m_isEmergency f1 then Flight_createEmergencyFlightPlan f1 w
                      else if Aircraft_isArrival (aircraft w p)
                      then Flight_createArrivalFlightPlan f1
                      else Flight_createDepartureFlightPlan f1) of
                  (b, f2) \<Rightarrow> Some (b, Flight_unlock f2))
           | None \<Rightarrow> Some (False, Flight_unlock f1)))"

text \<open>
  The constructor. No method holds the mutex of the object under construction, so the
  call of \<^verbatim>\<open>createFlightPlan\<close> returns; the result is an option only because that call
  is one.
\<close>

definition Flight_new :: "nat option \<Rightarrow> real \<Rightarrow> bool \<Rightarrow> World \<Rightarrow> Flight option" where
  "Flight_new aircraft_ptr scheduledTime isEmergency w =
     (let f0 = \<lparr>m_id = [], m_aircraft = aircraft_ptr, m_status = SCHEDULED,
                m_isEmergency = isEmergency, m_scheduledTime = scheduledTime,
                m_activationTime = 0, m_estimatedCompletionTime = 0, m_statusReason = [],
                m_assignedRunway = None, m_flightPlan = [], m_currentPlanStep = 0,
                m_mutex = False\<rparr> in
      case aircraft_ptr of
        None \<Rightarrow> Some f0
      | Some p \<Rightarrow>
          (case Flight_createFlightPlan (f0\<lparr>Flight.m_id := Aircraft.m_id (aircraft w p)\<rparr>) w of
             None \<Rightarrow> None
           | Some (_, f1) \<Rightarrow> Some (Flight_calculateEstimatedCompletionTime f1)))"

text \<open>\<^verbatim>\<open>runway->releaseAircraft(m_aircraft)\<close> on the runway at address \<open>rp\<close>.\<close>

definition release_at :: "int \<Rightarrow> nat option \<Rightarrow> nat \<Rightarrow> World \<Rightarrow> bool \<times> World" where
  "release_at now aircraft_ptr rp w =
     (case Runway_releaseAircraft now aircraft_ptr (runways w rp) of
        (ok, r') \<Rightarrow> (ok, w\<lparr>runways := (runways w)(rp := r')\<rparr>))"

text \<open>
  The block \<^verbatim>\<open>if (auto runway = m_assignedRunway.lock()) { runway->releaseAircraft(m_aircraft);
  m_assignedRunway.reset(); }\<close> shared by \<^verbatim>\<open>complete\<close>, \<^verbatim>\<open>cancel\<close>, \<^verbatim>\<open>divert\<close> and
  \<^verbatim>\<open>handleGroundFault\<close>.
\<close>

definition release_if_assigned :: "int \<Rightarrow> Flight \<Rightarrow> World \<Rightarrow> Flight \<times> World" where
  "release_if_assigned now f w =
     (case Flight.m_assignedRunway f of
        Some rp \<Rightarrow> (f\<lparr>Flight.m_assignedRunway := None\<rparr>, snd (release_at now (m_aircraft f) rp w))
      | None \<Rightarrow> (f, w))"

definition Flight_setEmergency :: "bool \<Rightarrow> Flight \<Rightarrow> World \<Rightarrow> Flight option" where
  "Flight_setEmergency isEmergency f0 w =
     (case Flight_lock f0 of
        None \<Rightarrow> None
      | Some f \<Rightarrow>
          if Flight.m_status f = SCHEDULED \<or> Flight.m_status f = ACTIVE
          then
            let f1 = f\<lparr>m_isEmergency := isEmergency\<rparr> in
            if isEmergency \<and> Flight.m_status f1 \<noteq> Flight_Status.EMERGENCY
            then Some (Flight_unlock (Flight_calculateEstimatedCompletionTime
                   (snd (Flight_createEmergencyFlightPlan
                           (f1\<lparr>Flight.m_status := Flight_Status.EMERGENCY\<rparr>) w))))
            else if \<not> isEmergency \<and> Flight.m_status f1 = Flight_Status.EMERGENCY
            then (case Flight_createFlightPlan (f1\<lparr>Flight.m_status := ACTIVE\<rparr>) w of
                    None \<Rightarrow> None
                  | Some (_, f2) \<Rightarrow>
                      Some (Flight_unlock (Flight_calculateEstimatedCompletionTime f2)))
            else Some (Flight_unlock f1)
          else Some (Flight_unlock f))"

definition Flight_assignRunway ::
  "int \<Rightarrow> nat option \<Rightarrow> Flight \<Rightarrow> World \<Rightarrow> (bool \<times> Flight \<times> World) option" where
  "Flight_assignRunway now runway f0 w =
     (case Flight_lock f0 of
        None \<Rightarrow> None
      | Some f \<Rightarrow>
          if Flight.m_status f \<noteq> SCHEDULED \<and> Flight.m_status f \<noteq> ACTIVE
             \<and> Flight.m_status f \<noteq> Flight_Status.EMERGENCY
          then Some (False, Flight_unlock f, w)
          else if Flight.m_assignedRunway f \<noteq> None then Some (False, Flight_unlock f, w)
          else case (runway, m_aircraft f) of
            (Some rp, Some p) \<Rightarrow>
              if \<not> Runway_canUseForDirection (runways w rp) (m_direction (aircraft w p))
                 \<or> \<not> Runway_canUseForAircraftType (runways w rp) (m_type (aircraft w p))
              then Some (False, Flight_unlock f, w)
              else (case Runway_assignAircraft now (m_aircraft f) (runways w rp) (aircraft w) of
                      (ok, r', h') \<Rightarrow>
                        let w' = w\<lparr>aircraft := h', runways := (runways w)(rp := r')\<rparr> in
                        if \<not> ok then Some (False, Flight_unlock f, w')
                        else Some (True,
                                   Flight_unlock (f\<lparr>Flight.m_assignedRunway := Some rp\<rparr>), w'))
          | _ \<Rightarrow> None)"

definition Flight_releaseRunway ::
  "int \<Rightarrow> Flight \<Rightarrow> World \<Rightarrow> (bool \<times> Flight \<times> World) option" where
  "Flight_releaseRunway now f0 w =
     (case Flight_lock f0 of
        None \<Rightarrow> None
      | Some f \<Rightarrow>
          (case Flight.m_assignedRunway f of
             None \<Rightarrow> Some (False, Flight_unlock f, w)
           | Some rp \<Rightarrow>
               (case release_at now (m_aircraft f) rp w of
                  (ok, w') \<Rightarrow>
                    if \<not> ok then Some (False, Flight_unlock f, w')
                    else Some (True,
                               Flight_unlock (f\<lparr>Flight.m_assignedRunway := None\<rparr>), w'))))"

definition Flight_activate :: "real \<Rightarrow> Flight \<Rightarrow> (bool \<times> Flight) option" where
  "Flight_activate currentTime f0 =
     (case Flight_lock f0 of
        None \<Rightarrow> None
      | Some f \<Rightarrow>
          if \<not> Flight_isValidStatusTransition f ACTIVE then Some (False, Flight_unlock f)
          else Some (True,
                     Flight_unlock (Flight_calculateEstimatedCompletionTime
                       (f\<lparr>Flight.m_status :=
                            (if m_isEmergency f then Flight_Status.EMERGENCY else ACTIVE),
                          m_activationTime := currentTime\<rparr>))))"

definition Flight_complete ::
  "int \<Rightarrow> Flight \<Rightarrow> World \<Rightarrow> (bool \<times> Flight \<times> World) option" where
  "Flight_complete now f0 w =
     (case Flight_lock f0 of
        None \<Rightarrow> None
      | Some f \<Rightarrow>
          if \<not> Flight_isValidStatusTransition f COMPLETED then Some (False, Flight_unlock f, w)
          else case release_if_assigned now f w of
            (f1, w1) \<Rightarrow> Some (True, Flight_unlock (f1\<lparr>Flight.m_status := COMPLETED\<rparr>), w1))"

definition Flight_cancel ::
  "int \<Rightarrow> string \<Rightarrow> Flight \<Rightarrow> World \<Rightarrow> (bool \<times> Flight \<times> World) option" where
  "Flight_cancel now reason f0 w =
     (case Flight_lock f0 of
        None \<Rightarrow> None
      | Some f \<Rightarrow>
          if \<not> Flight_isValidStatusTransition f CANCELED then Some (False, Flight_unlock f, w)
          else case release_if_assigned now f w of
            (f1, w1) \<Rightarrow>
              Some (True,
                    Flight_unlock (f1\<lparr>Flight.m_status := CANCELED, m_statusReason := reason\<rparr>),
                    w1))"

definition Flight_divert ::
  "int \<Rightarrow> string \<Rightarrow> Flight \<Rightarrow> World \<Rightarrow> (bool \<times> Flight \<times> World) option" where
  "Flight_divert now reason f0 w =
     (case Flight_lock f0 of
        None \<Rightarrow> None
      | Some f \<Rightarrow>
          if \<not> Flight_isValidStatusTransition f DIVERTED then Some (False, Flight_unlock f, w)
          else case release_if_assigned now f w of
            (f1, w1) \<Rightarrow>
              Some (True,
                    Flight_unlock (f1\<lparr>Flight.m_status := DIVERTED, m_statusReason := reason\<rparr>),
                    w1))"

text \<open>A \<^verbatim>\<open>const\<close> method: it returns its answer and leaves the flight as it was.\<close>

definition Flight_isReadyForNextPhase :: "real \<Rightarrow> Flight \<Rightarrow> bool option" where
  "Flight_isReadyForNextPhase currentTime f0 =
     (case Flight_lock f0 of
        None \<Rightarrow> None
      | Some f \<Rightarrow>
          if Flight.m_status f \<noteq> ACTIVE \<and> Flight.m_status f \<noteq> Flight_Status.EMERGENCY
          then Some False
          else if m_flightPlan f = [] \<or> m_currentPlanStep f \<ge> length (m_flightPlan f)
          then Some False
          else Some (currentTime - m_activationTime f
                       \<ge> relativeTimeOffset (m_flightPlan f ! m_currentPlanStep f)))"

definition Flight_handleGroundFault ::
  "int \<Rightarrow> Flight \<Rightarrow> World \<Rightarrow> (bool \<times> Flight \<times> World) option" where
  "Flight_handleGroundFault now f0 w =
     (case Flight_lock f0 of
        None \<Rightarrow> None
      | Some f \<Rightarrow>
          (case m_aircraft f of
             Some p \<Rightarrow>
               if m_hasGroundFault (aircraft w p)
               then (case release_if_assigned now f w of
                       (f1, w1) \<Rightarrow>
                         Some (True,
                               Flight_unlock
                                 (f1\<lparr>Flight.m_status := CANCELED,
                                     m_statusReason := ''Ground fault detected''\<rparr>),
                               w1))
               else Some (False, Flight_unlock f, w)
           | None \<Rightarrow> Some (False, Flight_unlock f, w)))"

text \<open>
  Running the closure of a plan step, from inside \<^verbatim>\<open>executeFlightPlanStep\<close>; \<open>drawn\<close>
  is the draw for the speed in the new phase. The closures dereference \<^verbatim>\<open>m_aircraft\<close>
  without a null check, and two of them call the locking methods \<^verbatim>\<open>releaseRunway\<close> and
  \<^verbatim>\<open>complete\<close> of the flight.
\<close>

definition run_transition :: "real \<Rightarrow> Flight \<Rightarrow> World \<Rightarrow> (bool \<times> Flight \<times> World) option" where
  "run_transition drawn f w =
     (case m_aircraft f of
        None \<Rightarrow> None
      | Some p \<Rightarrow>
          (case Aircraft_transitionToNextPhase drawn (aircraft w p) of
             (ok, a') \<Rightarrow> Some (ok, f, w\<lparr>aircraft := (aircraft w)(p := a')\<rparr>)))"

definition run_operation ::
  "PlanOperation \<Rightarrow> int \<Rightarrow> real \<Rightarrow> Flight \<Rightarrow> World \<Rightarrow> (bool \<times> Flight \<times> World) option" where
  "run_operation opn now drawn f w =
     (case opn of
        TransitionOp \<Rightarrow> run_transition drawn f w
      | ReleaseThenTransitionOp \<Rightarrow>
          (case Flight_releaseRunway now f w of
             None \<Rightarrow> None
           | Some (_, f1, w1) \<Rightarrow> run_transition drawn f1 w1)
      | CompleteOp \<Rightarrow> Flight_complete now f w)"

definition Flight_executeFlightPlanStep ::
  "real \<Rightarrow> int \<Rightarrow> real \<Rightarrow> Flight \<Rightarrow> World \<Rightarrow> (bool \<times> Flight \<times> World) option" where
  "Flight_executeFlightPlanStep currentTime now drawn f0 w =
     (case Flight_lock f0 of
        None \<Rightarrow> None
      | Some f \<Rightarrow>
          if m_flightPlan f = [] \<or> m_currentPlanStep f \<ge> length (m_flightPlan f)
          then Some (False, Flight_unlock f, w)
          else if currentTime - m_activationTime f
                    < relativeTimeOffset (m_flightPlan f ! m_currentPlanStep f)
          then Some (False, Flight_unlock f, w)
          else case run_operation (operation (m_flightPlan f ! m_currentPlanStep f))
                      now drawn f w of
            None \<Rightarrow> None
          | Some (success, f1, w1) \<Rightarrow>
              let f2 = f1\<lparr>m_currentPlanStep := m_currentPlanStep f1 + 1\<rparr> in
              if m_currentPlanStep f2 \<ge> length (m_flightPlan f2)
              then (case Flight_complete now f2 w1 of
                      None \<Rightarrow> None
                    | Some (_, f3, w3) \<Rightarrow> Some (success, Flight_unlock f3, w3))
              else Some (success, Flight_unlock f2, w1))"

definition Flight_transitionToNextPhase ::
  "real \<Rightarrow> Flight \<Rightarrow> World \<Rightarrow> (bool \<times> Flight \<times> World) option" where
  "Flight_transitionToNextPhase drawn f0 w =
     (case Flight_lock f0 of
        None \<Rightarrow> None
      | Some f \<Rightarrow>
          if Flight.m_status f \<noteq> ACTIVE \<and> Flight.m_status f \<noteq> Flight_Status.EMERGENCY
          then Some (False, Flight_unlock f, w)
          else (case run_transition drawn f w of
                  None \<Rightarrow> None
                | Some (ok, f1, w1) \<Rightarrow> Some (ok, Flight_unlock f1, w1)))"

text \<open>
  \<^verbatim>\<open>Flight::update(deltaTime, currentTime)\<close>; \<open>speedDelta\<close> and \<open>faultDraw\<close> are the
  draws of \<^verbatim>\<open>Aircraft::update\<close>, \<open>drawn\<close> the draw of a phase transition. The method
  holds the mutex while it calls \<^verbatim>\<open>handleGroundFault\<close>, \<^verbatim>\<open>isReadyForNextPhase\<close> and
  \<^verbatim>\<open>executeFlightPlanStep\<close>.
\<close>

definition Flight_update ::
  "(real \<Rightarrow> double) \<Rightarrow> real \<Rightarrow> real \<Rightarrow> int \<Rightarrow> real \<Rightarrow> real \<Rightarrow> real \<Rightarrow> Flight \<Rightarrow> World
     \<Rightarrow> (Flight \<times> World) option" where
  "Flight_update rnd deltaTime currentTime now speedDelta faultDraw drawn f0 w =
     (case Flight_lock f0 of
        None \<Rightarrow> None
      | Some f \<Rightarrow>
          if Flight.m_status f \<noteq> ACTIVE \<and> Flight.m_status f \<noteq> Flight_Status.EMERGENCY
          then Some (Flight_unlock f, w)
          else
            let w1 = (case m_aircraft f of
                        Some p \<Rightarrow>
                          w\<lparr>aircraft := (aircraft w)
                               (p := Aircraft_update rnd deltaTime speedDelta faultDraw
                                       (aircraft w p))\<rparr>
                      | None \<Rightarrow> w)
            in
            if (case m_aircraft f of
                  Some p \<Rightarrow> m_hasGroundFault (aircraft w1 p)
                | None \<Rightarrow> False)
            then (case Flight_handleGroundFault now f w1 of
                    None \<Rightarrow> None
                  | Some (_, f2, w2) \<Rightarrow> Some (Flight_unlock f2, w2))
            else (case Flight_isReadyForNextPhase currentTime f of
                    None \<Rightarrow> None
                  | Some ready \<Rightarrow>
                      if ready
                      then (case Flight_executeFlightPlanStep currentTime now drawn f w1 of
                              None \<Rightarrow> None
                            | Some (_, f2, w2) \<Rightarrow> Some (Flight_unlock f2, w2))
                      else Some (Flight_unlock f, w1)))"

subsection \<open>Airline\<close>

text \<open>
  \<open>m_fleet\<close> is the \<^verbatim>\<open>unordered_map\<close> from flight id to aircraft pointer, kept as an
  association list with one pair per key; \<^verbatim>\<open>m_fleet[k] = v\<close> is \<open>AList.update k v\<close> and
  \<^verbatim>\<open>m_fleet.size()\<close> is the length of the list.
\<close>

record Airline =
  m_name :: string
  m_primaryType :: AircraftType
  m_totalAircrafts :: "32 word"
  m_activeFlights :: "32 word"
  m_violationCount :: "32 word"
  m_lastFlightScheduleTime :: real
  m_fleet :: "(string \<times> nat) list"
  m_mutex :: bool

text \<open>
  The draws and the allocation of one \<^verbatim>\<open>scheduleFlightIfNeeded\<close> call: the emergency
  draw, the two draws of \<^verbatim>\<open>determineAircraftType\<close>, the flight number drawn from
  \<open>[100, 9999]\<close>, the initial speed drawn, and the address returned by
  \<^verbatim>\<open>std::make_shared<Aircraft>\<close>.
\<close>

record Draws =
  emergencyDraw :: real
  typeDraw1 :: real
  typeDraw2 :: real
  flightNumber :: int
  speedDraw :: real
  newAddress :: nat


text \<open>\<^verbatim>\<open>static_cast<size_t>\<close> of an \<^verbatim>\<open>int\<close>: the signed value modulo \<open>2 ^ 64\<close>.\<close>

definition size_t_of_int :: "32 word \<Rightarrow> nat" where
  "size_t_of_int i = nat (sint i mod 2 ^ 64)"

definition Airline_canScheduleFlight :: "Airline \<Rightarrow> bool" where
  "Airline_canScheduleFlight a \<longleftrightarrow> length (m_fleet a) < size_t_of_int (m_totalAircrafts a)"

definition is_space :: "char \<Rightarrow> bool" where
  "is_space c \<longleftrightarrow> c \<in> set [CHR '' '', CHR 0x09, CHR 0x0A, CHR 0x0B, CHR 0x0C, CHR 0x0D]"

text \<open>The words \<^verbatim>\<open>iss >> word\<close> extracts: maximal runs of non-space characters.\<close>

fun words_from :: "string \<Rightarrow> string \<Rightarrow> string list" where
  "words_from cur [] = (if cur = [] then [] else [cur])"
| "words_from cur (c # cs) =
     (if is_space c then (if cur = [] then words_from [] cs else cur # words_from [] cs)
      else words_from (cur @ [c]) cs)"

definition toupper :: "char \<Rightarrow> char" where
  "toupper c =
     (if (of_char (CHR ''a'') :: nat) \<le> of_char c \<and> (of_char c :: nat) \<le> of_char (CHR ''z'')
      then char_of ((of_char c :: nat) - 32) else c)"

text \<open>The decimal rendering \<^verbatim>\<open>idss << flightNumber\<close> of an \<^verbatim>\<open>int\<close>.\<close>

fun decimal :: "nat \<Rightarrow> string" where
  "decimal n = (if 10 \<le> n then decimal (n div 10) else []) @ [char_of (n mod 10 + 48)]"

declare decimal.simps [simp del]

definition show_int :: "int \<Rightarrow> string" where
  "show_int i = (if 0 \<le> i then decimal (nat i) else CHR ''-'' # decimal (nat (- i)))"

definition Airline_generateFlightId :: "int \<Rightarrow> Airline \<Rightarrow> string" where
  "Airline_generateFlightId num a =
     (let airlineCode =
            map (\<lambda>word. toupper (hd word))
              (filter (\<lambda>word. word \<noteq> []) (words_from [] (m_name a)));
          airlineCode' = (if airlineCode = [] then ''XX'' else airlineCode)
      in airlineCode' @ show_int num)"

definition Airline_determineAircraftType ::
  "FlightDirection \<Rightarrow> bool \<Rightarrow> real \<Rightarrow> real \<Rightarrow> Airline \<Rightarrow> AircraftType" where
  "Airline_determineAircraftType direction forceEmergency u1 u2 a =
     (let result = m_primaryType a in
      if forceEmergency then AircraftType.EMERGENCY
      else if m_primaryType a = AircraftType.EMERGENCY \<or> m_primaryType a = CARGO
      then m_primaryType a
      else if m_primaryType a = COMMERCIAL
      then (case map_of EMERGENCY_PROBABILITY direction of
              Some emergencyProb \<Rightarrow>
                if u1 < emergencyProb then AircraftType.EMERGENCY
                else if u2 < 5 / 100 then CARGO
                else result
            | None \<Rightarrow> if u1 < 5 / 100 then CARGO else result)
      else result)"

text \<open>
  \<^verbatim>\<open>std::lock_guard<std::mutex> lock(m_mutex)\<close> on the airline's mutex, as for a flight.
\<close>

definition Airline_lock :: "Airline \<Rightarrow> Airline option" where
  "Airline_lock a = (if Airline.m_mutex a then None else Some (a\<lparr>Airline.m_mutex := True\<rparr>))"

definition Airline_unlock :: "Airline \<Rightarrow> Airline" where
  "Airline_unlock a = a\<lparr>Airline.m_mutex := False\<rparr>"

definition Airline_createAircraft ::
  "FlightDirection \<Rightarrow> bool \<Rightarrow> Draws \<Rightarrow> Airline \<Rightarrow> aircraft_heap
     \<Rightarrow> (nat option \<times> Airline \<times> aircraft_heap) option" where
  "Airline_createAircraft direction forceEmergency d a0 h =
     (case Airline_lock a0 of
        None \<Rightarrow> None
      | Some a \<Rightarrow>
          if \<not> Airline_canScheduleFlight a then Some (None, Airline_unlock a, h)
          else
            let aircraftType =
                  Airline_determineAircraftType direction forceEmergency
                    (typeDraw1 d) (typeDraw2 d) a;
                flightId = Airline_generateFlightId (flightNumber d) a;
                ac = Aircraft_new flightId aircraftType direction (Some (m_name a)) (speedDraw d)
            in Some (Some (newAddress d),
                     Airline_unlock
                       (a\<lparr>m_fleet := AList.update flightId (newAddress d) (m_fleet a),
                          m_activeFlights := m_activeFlights a + 1\<rparr>),
                     h(newAddress d := ac)))"


subsection \<open>SpeedMonitor\<close>

record ViolationRecord =
  aircraftId :: string
  airlineName :: string
  phase :: FlightPhase
  actualSpeed :: double
  minAllowedSpeed :: real
  maxAllowedSpeed :: real
  timestamp :: real
  description :: string

record SpeedMonitor =
  m_speedHistory :: "string \<rightharpoonup> double list"
  m_violations :: "ViolationRecord list"
  m_violationsByAirline :: "string \<rightharpoonup> 32 word"
  m_violationsByPhase :: "FlightPhase \<rightharpoonup> 32 word"

definition SpeedMonitor_new :: SpeedMonitor where
  "SpeedMonitor_new =
     \<lparr>m_speedHistory = Map.empty, m_violations = [], m_violationsByAirline = Map.empty,
      m_violationsByPhase = Map.empty\<rparr>"

definition SpeedMonitor_getSpeedLimitsForPhase :: "FlightPhase \<Rightarrow> SpeedLimits" where
  "SpeedMonitor_getSpeedLimitsForPhase ph =
     (case map_of SPEED_LIMITS ph of
        Some limits \<Rightarrow> limits
      | None \<Rightarrow> \<lparr>min_lim = 0, max_lim = 0\<rparr>)"

definition SpeedMonitor_recordSpeedDataPoint ::
  "string \<Rightarrow> double \<Rightarrow> SpeedMonitor \<Rightarrow> SpeedMonitor" where
  "SpeedMonitor_recordSpeedDataPoint ident speed mon =
     (let history = (case m_speedHistory mon ident of Some xs \<Rightarrow> xs | None \<Rightarrow> []) @ [speed];
          history' = (if length history > 10 then tl history else history)
      in mon\<lparr>m_speedHistory := (m_speedHistory mon)(ident \<mapsto> history')\<rparr>)"

text \<open>
  The loop \<^verbatim>\<open>totalChange += std::abs(history[i] - history[i-1])\<close>, with the running
  total as accumulator.
\<close>

fun total_change :: "(real \<Rightarrow> double) \<Rightarrow> double \<Rightarrow> double list \<Rightarrow> double" where
  "total_change rnd acc (x # y # xs) =
     total_change rnd (dadd rnd acc (dabs (dsub rnd y x))) (y # xs)"
| "total_change rnd acc _ = acc"

definition SpeedMonitor_detectRapidSpeedChanges ::
  "(real \<Rightarrow> double) \<Rightarrow> string \<Rightarrow> SpeedMonitor \<Rightarrow> bool" where
  "SpeedMonitor_detectRapidSpeedChanges rnd ident mon =
     (case m_speedHistory mon ident of
        None \<Rightarrow> False
      | Some history \<Rightarrow>
          if length history < 3 then False
          else dless (Finite 50)
                 (ddiv_count rnd (total_change rnd (Finite 0) history) (length history - 1)))"

text \<open>
  The descriptions are assembled with \<^verbatim>\<open>std::fixed << std::setprecision(1)\<close> and
  \<^verbatim>\<open>FlightPhaseToString\<close>, whose definition is not part of the sources at hand: the
  rendering of a \<^verbatim>\<open>double\<close> (\<open>fmt\<close>) and of a phase (\<open>phaseStr\<close>) are parameters.
\<close>

definition SpeedMonitor_generateViolationDescription ::
  "(double \<Rightarrow> string) \<Rightarrow> (FlightPhase \<Rightarrow> string) \<Rightarrow> nat option \<Rightarrow> double \<Rightarrow> real \<Rightarrow> real
     \<Rightarrow> aircraft_heap \<Rightarrow> string" where
  "SpeedMonitor_generateViolationDescription fmt phaseStr ac actual minAllowed maxAllowed h =
     (case ac of
        None \<Rightarrow> ''Invalid aircraft''
      | Some p \<Rightarrow>
          if dless actual (Finite minAllowed)
          then ''Speed too low: '' @ fmt actual @ '' km/h (minimum: ''
               @ fmt (Finite minAllowed)
               @ '' km/h) during '' @ phaseStr (m_currentPhase (h p)) @ '' phase''
          else if dless (Finite maxAllowed) actual
          then ''Speed too high: '' @ fmt actual @ '' km/h (maximum: ''
               @ fmt (Finite maxAllowed)
               @ '' km/h) during '' @ phaseStr (m_currentPhase (h p)) @ '' phase''
          else ''Unstable speed pattern detected during '' @ phaseStr (m_currentPhase (h p))
               @ '' phase'')"

definition count_up :: "('k \<rightharpoonup> 32 word) \<Rightarrow> 'k \<Rightarrow> ('k \<rightharpoonup> 32 word)" where
  "count_up m k = m(k \<mapsto> (case m k of None \<Rightarrow> 0 | Some c \<Rightarrow> c) + 1)"

definition empty_record :: ViolationRecord where
  "empty_record =
     \<lparr>aircraftId = [], airlineName = [], phase = HOLDING, actualSpeed = Finite 0,
      minAllowedSpeed = 0,
      maxAllowedSpeed = 0, timestamp = 0, description = []\<rparr>"

definition SpeedMonitor_recordViolation ::
  "(double \<Rightarrow> string) \<Rightarrow> (FlightPhase \<Rightarrow> string) \<Rightarrow> nat option \<Rightarrow> double \<Rightarrow> real \<Rightarrow> real
     \<Rightarrow> real \<Rightarrow> SpeedMonitor \<Rightarrow> aircraft_heap \<Rightarrow> ViolationRecord \<times> SpeedMonitor" where
  "SpeedMonitor_recordViolation fmt phaseStr ac actual minAllowed maxAllowed currentTime mon h =
     (case ac of
        None \<Rightarrow> (empty_record, mon)
      | Some p \<Rightarrow>
          let ident = Aircraft.m_id (h p);
              name = (case m_airline (h p) of Some n \<Rightarrow> n | None \<Rightarrow> ''Unknown'');
              ph = m_currentPhase (h p);
              rec = \<lparr>aircraftId = ident, airlineName = name, phase = ph, actualSpeed = actual,
                     minAllowedSpeed = minAllowed, maxAllowedSpeed = maxAllowed,
                     timestamp = currentTime,
                     description =
                       SpeedMonitor_generateViolationDescription fmt phaseStr ac actual
                         minAllowed maxAllowed h\<rparr>
          in (rec,
              mon\<lparr>m_violations := m_violations mon @ [rec],
                  m_violationsByAirline := count_up (m_violationsByAirline mon) name,
                  m_violationsByPhase := count_up (m_violationsByPhase mon) ph\<rparr>))"

definition SpeedMonitor_generateAVN ::
  "(double \<Rightarrow> string) \<Rightarrow> (FlightPhase \<Rightarrow> string) \<Rightarrow> nat option \<Rightarrow> string \<Rightarrow> real
     \<Rightarrow> aircraft_heap \<Rightarrow> bool \<times> aircraft_heap" where
  "SpeedMonitor_generateAVN fmt phaseStr ac descr currentTime h =
     (case ac of
        None \<Rightarrow> (False, h)
      | Some p \<Rightarrow>
          let ph = m_currentPhase (h p);
              speed = m_currentSpeed (h p);
              limits = SpeedMonitor_getSpeedLimitsForPhase ph;
              detailedDesc =
                descr @ '' at time '' @ fmt (Finite currentTime) @ ''s: ''
                @ ''Speed '' @ fmt speed @ '' km/h ''
                @ (if dless speed (Finite (min_lim limits))
                   then ''is below minimum '' @ fmt (Finite (min_lim limits)) @ '' km/h ''
                   else if dless (Finite (max_lim limits)) speed
                   then ''exceeds maximum '' @ fmt (Finite (max_lim limits)) @ '' km/h ''
                   else [])
                @ ''for '' @ phaseStr ph @ '' phase.''
          in (True, h(p := Aircraft_issueAVN detailedDesc (h p))))"

definition SpeedMonitor_monitorAircraftSpeed ::
  "(real \<Rightarrow> double) \<Rightarrow> (double \<Rightarrow> string) \<Rightarrow> (FlightPhase \<Rightarrow> string) \<Rightarrow> nat option \<Rightarrow> real
     \<Rightarrow> SpeedMonitor \<Rightarrow> aircraft_heap \<Rightarrow> bool \<times> SpeedMonitor \<times> aircraft_heap" where
  "SpeedMonitor_monitorAircraftSpeed rnd fmt phaseStr ac currentTime mon h =
     (case ac of
        None \<Rightarrow> (False, mon, h)
      | Some p \<Rightarrow>
          let ph = m_currentPhase (h p);
              speed = m_currentSpeed (h p);
              mon1 = SpeedMonitor_recordSpeedDataPoint (Aircraft.m_id (h p)) speed mon;
              limits = SpeedMonitor_getSpeedLimitsForPhase ph;
              isViolation = (dless speed (Finite (min_lim limits))
                             \<or> dless (Finite (max_lim limits)) speed);
              hasRapidChanges =
                SpeedMonitor_detectRapidSpeedChanges rnd (Aircraft.m_id (h p)) mon1
          in if isViolation \<or> hasRapidChanges
             then (case SpeedMonitor_recordViolation fmt phaseStr ac speed (min_lim limits)
                          (max_lim limits) currentTime mon1 h of
                     (rec, mon2) \<Rightarrow>
                       let descr = (if hasRapidChanges
                                    then ''Rapid and unsafe speed changes detected''
                                    else ''Speed limit violation'')
                       in (True, mon2,
                           snd (SpeedMonitor_generateAVN fmt phaseStr ac descr currentTime h)))
             else (False, mon1, h))"

section \<open>Definitions used to state the properties\<close>

subsection \<open>Runway eligibility as the specification words it\<close>

text \<open>
  RWY-A is valid iff the direction is North or South, for any kind; RWY-B iff the
  direction is East or West, for any kind; RWY-C for any direction, but only for the
  kinds Cargo and Emergency.
\<close>

definition eligible_spec :: "RunwayId \<Rightarrow> FlightDirection \<Rightarrow> AircraftType \<Rightarrow> bool" where
  "eligible_spec ident direction kind =
     (case ident of
        RWY_A \<Rightarrow> direction = NORTH \<or> direction = SOUTH
      | RWY_B \<Rightarrow> direction = EAST \<or> direction = WEST
      | RWY_C \<Rightarrow> kind = CARGO \<or> kind = AircraftType.EMERGENCY)"

text \<open>
  The three reasons for which an assignment is to be refused: the runway is not
  available, the aircraft pointer is null, or the aircraft is not eligible.
\<close>

definition assign_refused :: "nat option \<Rightarrow> Runway \<Rightarrow> aircraft_heap \<Rightarrow> bool" where
  "assign_refused ac r h \<longleftrightarrow>
     Runway.m_status r \<noteq> AVAILABLE \<or>
     (case ac of None \<Rightarrow> True
      | Some p \<Rightarrow> \<not> eligible_spec (Runway.m_id r) (m_direction (h p)) (m_type (h p)))"

subsection \<open>Sequences of calls on one runway\<close>

datatype Runway_call =
    AssignCall int "nat option"
  | ReleaseCall int "nat option"
  | SetStatusCall int Runway_Status

fun Runway_step :: "Runway_call \<Rightarrow> Runway \<times> aircraft_heap \<Rightarrow> Runway \<times> aircraft_heap" where
  "Runway_step (AssignCall now ac) (r, h) = snd (Runway_assignAircraft now ac r h)"
| "Runway_step (ReleaseCall now ac) (r, h) = (snd (Runway_releaseAircraft now ac r), h)"
| "Runway_step (SetStatusCall now s) (r, h) = (snd (Runway_setStatus now s r), h)"

fun Runway_run :: "Runway_call list \<Rightarrow> Runway \<times> aircraft_heap \<Rightarrow> Runway \<times> aircraft_heap" where
  "Runway_run [] s = s"
| "Runway_run (c # cs) s = Runway_run cs (Runway_step c s)"

fun sets_in_use :: "Runway_call \<Rightarrow> bool" where
  "sets_in_use (SetStatusCall now s) = (s = IN_USE)"
| "sets_in_use _ = False"

definition occupied_only_in_use :: "Runway \<Rightarrow> bool" where
  "occupied_only_in_use r \<longleftrightarrow> (m_assignedAircraft r \<noteq> None \<longrightarrow> Runway.m_status r = IN_USE)"

definition in_use_iff_occupied :: "Runway \<Rightarrow> bool" where
  "in_use_iff_occupied r \<longleftrightarrow> (Runway.m_status r = IN_USE \<longleftrightarrow> m_assignedAircraft r \<noteq> None)"

subsection \<open>Concrete objects\<close>

definition cargo_north :: Aircraft where
  "cargo_north = Aircraft_new ''BD100'' CARGO NORTH (Some ''Blue Dart'') 500"

definition heap0 :: aircraft_heap where
  "heap0 = (\<lambda>_. cargo_north)"

definition example_calls :: "Runway_call list" where
  "example_calls =
     [AssignCall 1 (Some 0), SetStatusCall 2 MAINTENANCE, SetStatusCall 3 AVAILABLE,
      AssignCall 4 (Some 0)]"

definition runway_c_assigned :: Runway where
  "runway_c_assigned = fst (snd (Runway_assignAircraft 0 (Some 0) (Runway_new 0 RWY_C) heap0))"

definition heap_c_assigned :: aircraft_heap where
  "heap_c_assigned = snd (snd (Runway_assignAircraft 0 (Some 0) (Runway_new 0 RWY_C) heap0))"

subsection \<open>The status graph and the plans\<close>

text \<open>
  The transition graph of the flight status: Scheduled to Active, Emergency or Canceled;
  Active to Emergency, Completed, Canceled or Diverted; Emergency to Completed, Canceled
  or Diverted; Completed, Canceled and Diverted are terminal.
\<close>

definition edge :: "Flight_Status \<Rightarrow> Flight_Status \<Rightarrow> bool" where
  "edge s t =
     (case s of
        SCHEDULED \<Rightarrow> t = ACTIVE \<or> t = Flight_Status.EMERGENCY \<or> t = CANCELED
      | ACTIVE \<Rightarrow> t = Flight_Status.EMERGENCY \<or> t = COMPLETED \<or> t = CANCELED \<or> t = DIVERTED
      | Flight_Status.EMERGENCY \<Rightarrow> t = COMPLETED \<or> t = CANCELED \<or> t = DIVERTED
      | COMPLETED \<Rightarrow> False
      | CANCELED \<Rightarrow> False
      | DIVERTED \<Rightarrow> False)"

text \<open>
  A flight carries an arrival (departure) plan when the operations of its plan are those
  \<^verbatim>\<open>createArrivalFlightPlan\<close> (\<^verbatim>\<open>createDepartureFlightPlan\<close>) installs; the emergency
  plans have the same operations at half the offsets.
\<close>

definition has_arrival_plan :: "Flight \<Rightarrow> bool" where
  "has_arrival_plan f \<longleftrightarrow>
     map operation (m_flightPlan f)
       = map operation (m_flightPlan (snd (Flight_createArrivalFlightPlan f)))"

definition has_departure_plan :: "Flight \<Rightarrow> bool" where
  "has_departure_plan f \<longleftrightarrow>
     map operation (m_flightPlan f)
       = map operation (m_flightPlan (snd (Flight_createDepartureFlightPlan f)))"

text \<open>
  The phase in which a plan expects the aircraft before each of its steps, by the
  comments of the plan steps: an arrival plan starts in Holding, a departure plan at the
  gate. A flight is in step with its plan when its aircraft is in the phase the plan
  expects at the current step.
\<close>

definition arrival_phases :: "FlightPhase list" where
  "arrival_phases = [HOLDING, APPROACH, LANDING, TAXI_IN, AT_GATE_ARRIVAL]"

definition departure_phases :: "FlightPhase list" where
  "departure_phases = [AT_GATE_DEPARTURE, TAXI_OUT, TAKEOFF_ROLL, CLIMB, CRUISE]"

definition in_step :: "Flight \<Rightarrow> World \<Rightarrow> bool" where
  "in_step f w =
     (case m_aircraft f of
        None \<Rightarrow> False
      | Some p \<Rightarrow>
          m_currentPlanStep f < 5 \<and>
          (has_arrival_plan f
             \<and> m_currentPhase (aircraft w p) = arrival_phases ! m_currentPlanStep f
           \<or> has_departure_plan f
             \<and> m_currentPhase (aircraft w p) = departure_phases ! m_currentPlanStep f))"

subsection \<open>Concrete flights\<close>

text \<open>
  Aircraft 0 is the North-bound cargo arrival, every other address holds a commercial
  East-bound departure; runway 0 is RWY-A, runway 1 is RWY-B, every other one RWY-C.
\<close>

definition world0 :: World where
  "world0 =
     \<lparr>aircraft = (\<lambda>n. if n = 0 then cargo_north
                         else Aircraft_new ''P300'' COMMERCIAL EAST (Some ''PIA'') 2),
      runways = (\<lambda>n. Runway_new 0 (if n = 0 then RWY_A else if n = 1 then RWY_B else RWY_C))\<rparr>"

text \<open>
  The states below are built by calls that are made one after the other, each on the
  result of the one before; a state is \<open>None\<close> if one of the calls does not return.

  The flight of aircraft \<open>p\<close>, constructed for time 0, once it has taken runway \<open>rp\<close>,
  and once it has been activated at time 0.
\<close>

definition scheduled_on :: "nat \<Rightarrow> nat \<Rightarrow> (Flight \<times> World) option" where
  "scheduled_on p rp =
     (case Flight_new (Some p) 0 False world0 of
        None \<Rightarrow> None
      | Some f \<Rightarrow>
          (case Flight_assignRunway 0 (Some rp) f world0 of
             None \<Rightarrow> None
           | Some (_, f', w') \<Rightarrow> Some (f', w')))"

definition active_on :: "nat \<Rightarrow> nat \<Rightarrow> (Flight \<times> World) option" where
  "active_on p rp =
     (case scheduled_on p rp of
        None \<Rightarrow> None
      | Some (f, w) \<Rightarrow>
          (case Flight_activate 0 f of
             None \<Rightarrow> None
           | Some (_, f') \<Rightarrow> Some (f', w)))"

text \<open>
  A call \<^verbatim>\<open>flight->executeFlightPlanStep(t)\<close> at clock reading \<open>clk\<close>, the aircraft
  drawing the speed \<open>drawn\<close> in its new phase.
\<close>

definition then_step ::
  "real \<Rightarrow> int \<Rightarrow> real \<Rightarrow> (Flight \<times> World) option \<Rightarrow> (Flight \<times> World) option" where
  "then_step t clk drawn s =
     (case s of
        None \<Rightarrow> None
      | Some (f, w) \<Rightarrow>
          (case Flight_executeFlightPlanStep t clk drawn f w of
             None \<Rightarrow> None
           | Some (_, f', w') \<Rightarrow> Some (f', w')))"

definition departure_at_takeoff :: "(Flight \<times> World) option" where
  "departure_at_takeoff =
     then_step 60 60000000000 100 (then_step 30 30000000000 20 (active_on 1 1))"

definition departure_at_climb :: "(Flight \<times> World) option" where
  "departure_at_climb = then_step 75 75000000000 300 departure_at_takeoff"

definition arrival_at_landing :: "(Flight \<times> World) option" where
  "arrival_at_landing =
     then_step 60 60000000000 200 (then_step 30 30000000000 260 (active_on 0 0))"

text \<open>
  The landing arrival is declared an emergency, which installs a fresh emergency plan
  at step 0; the first step of that plan is then executed at time 60.
\<close>

definition arrival_replanned :: "(Flight \<times> World) option" where
  "arrival_replanned =
     (case arrival_at_landing of
        None \<Rightarrow> None
      | Some (f, w) \<Rightarrow>
          (case Flight_setEmergency True f w of
             None \<Rightarrow> None
           | Some f' \<Rightarrow> Some (f', w)))"

definition arrival_replanned_taxi :: "(Flight \<times> World) option" where
  "arrival_replanned_taxi = then_step 60 60000000000 20 arrival_replanned"

text \<open>\<^verbatim>\<open>simulateGroundFault\<close> with a draw of 0 on the aircraft at address \<open>p\<close>.\<close>

definition inject_fault :: "nat \<Rightarrow> World \<Rightarrow> World" where
  "inject_fault p w =
     w\<lparr>aircraft := (aircraft w)(p := snd (Aircraft_simulateGroundFault 0 (aircraft w p)))\<rparr>"

text \<open>The active departure, standing at the gate, develops a ground fault.\<close>

definition active_faulty :: "(Flight \<times> World) option" where
  "active_faulty =
     (case active_on 1 1 of
        None \<Rightarrow> None
      | Some (f, w) \<Rightarrow> Some (f, inject_fault 1 w))"

text \<open>
  The same, after the runway of the departure was closed for maintenance by
  \<^verbatim>\<open>setStatus\<close> at clock reading \<open>2 * 10\<^sup>9\<close>.
\<close>

definition closed_faulty :: "(Flight \<times> World) option" where
  "closed_faulty =
     (case active_faulty of
        None \<Rightarrow> None
      | Some (f, w) \<Rightarrow>
          Some (f, w\<lparr>runways := (runways w)
                        (1 := snd (Runway_setStatus 2000000000 MAINTENANCE (runways w 1)))\<rparr>))"

text \<open>
  The departure is completed while its aircraft stands at the gate; afterwards the
  aircraft develops a ground fault.
\<close>

definition completed_faulty :: "(Flight \<times> World) option" where
  "completed_faulty =
     (case active_on 1 1 of
        None \<Rightarrow> None
      | Some (f, w) \<Rightarrow>
          (case Flight_complete 5000000000 f w of
             None \<Rightarrow> None
           | Some (_, f', w') \<Rightarrow> Some (f', inject_fault 1 w')))"

subsection \<open>Scheduling cadence and monitoring\<close>




text \<open>
  A sequence of \<^verbatim>\<open>monitorAircraftSpeed\<close> calls for one aircraft, at the given times.
\<close>

fun monitor_times ::
  "(real \<Rightarrow> double) \<Rightarrow> (double \<Rightarrow> string) \<Rightarrow> (FlightPhase \<Rightarrow> string) \<Rightarrow> nat option \<Rightarrow> real list
     \<Rightarrow> SpeedMonitor \<times> aircraft_heap \<Rightarrow> SpeedMonitor \<times> aircraft_heap" where
  "monitor_times rnd fmt phaseStr ac [] s = s"
| "monitor_times rnd fmt phaseStr ac (t # ts) s =
     monitor_times rnd fmt phaseStr ac ts
       (snd (SpeedMonitor_monitorAircraftSpeed rnd fmt phaseStr ac t (fst s) (snd s)))"

definition out_of_bounds :: "Aircraft \<Rightarrow> bool" where
  "out_of_bounds a \<longleftrightarrow>
     dless (m_currentSpeed a)
       (Finite (min_lim (SpeedMonitor_getSpeedLimitsForPhase (m_currentPhase a))))
     \<or> dless (Finite (max_lim (SpeedMonitor_getSpeedLimitsForPhase (m_currentPhase a))))
          (m_currentSpeed a)"

text \<open>The holding aircraft at address 0 flown at 650 km/h; renderings that print nothing.\<close>

definition heap_fast :: aircraft_heap where
  "heap_fast = heap0(0 := snd (Aircraft_setSpeed (Finite 650) cargo_north))"

definition no_number :: "double \<Rightarrow> string" where
  "no_number x = []"

definition no_phase :: "FlightPhase \<Rightarrow> string" where
  "no_phase ph = []"

text \<open>Rounding that keeps every real number as it is.\<close>

definition exact :: "real \<Rightarrow> double" where
  "exact x = Finite x"


section \<open>Properties\<close>

lemmas example_defs =
  cargo_north_def heap0_def Aircraft_new_def Aircraft_isArrival_def
  Aircraft_generateRandomSpeedForPhase_def SPEED_LIMITS_def Runway_new_def

lemmas runway_defs =
  Runway_assignAircraft_def Runway_releaseAircraft_def Runway_setStatus_def
  Runway_canUseForDirection_def Runway_canUseForAircraftType_def
  Runway_isValidRunwayForDirection_def Runway_isValidRunwayForAircraftType_def
  Aircraft_assignRunway_def

subsection \<open>Runway\<close>

lemma eligible_spec_iff:
  "eligible_spec ident d k \<longleftrightarrow>
     Runway_isValidRunwayForDirection ident d \<and> Runway_isValidRunwayForAircraftType ident k"
  by (cases ident) (auto simp: eligible_spec_def Runway_isValidRunwayForDirection_def
        Runway_isValidRunwayForAircraftType_def)

text \<open>
  C4. \<^verbatim>\<open>Runway::assignAircraft\<close> returns failure exactly when the status is not
  Available, the aircraft pointer is null, or the aircraft is not eligible for the runway
  (RWY-A: North or South, any kind; RWY-B: East or West, any kind; RWY-C: any direction,
  Cargo or Emergency only). On failure neither the runway nor the aircraft changes. On
  success the status is InUse, the aircraft is the occupant, and the usage count has
  increased by one.
\<close>

theorem assignAircraft_contract:
  "((fst (Runway_assignAircraft now ac r h) = False) = assign_refused ac r h)
   \<and> (assign_refused ac r h \<longrightarrow> Runway_assignAircraft now ac r h = (False, r, h))
   \<and> (\<not> assign_refused ac r h \<longrightarrow>
        fst (Runway_assignAircraft now ac r h) = True \<and>
        Runway.m_status (fst (snd (Runway_assignAircraft now ac r h))) = IN_USE \<and>
        m_assignedAircraft (fst (snd (Runway_assignAircraft now ac r h))) = ac \<and>
        ac \<noteq> None \<and>
        m_usageCount (fst (snd (Runway_assignAircraft now ac r h))) = m_usageCount r + 1)"
  by (auto simp: Runway_assignAircraft_def assign_refused_def eligible_spec_iff
        Runway_canUseForDirection_def Runway_canUseForAircraftType_def split: option.splits)

text \<open>
  A North-bound cargo aircraft is refused by RWY-B, which stays as it was, and accepted by
  RWY-C, whose usage count becomes 1.
\<close>

theorem assignAircraft_contract_witness:
  "assign_refused (Some 0) (Runway_new 0 RWY_B) heap0
   \<and> Runway_assignAircraft 7 (Some 0) (Runway_new 0 RWY_B) heap0
       = (False, Runway_new 0 RWY_B, heap0)
   \<and> \<not> assign_refused (Some 0) (Runway_new 0 RWY_C) heap0
   \<and> fst (Runway_assignAircraft 7 (Some 0) (Runway_new 0 RWY_C) heap0) = True
   \<and> m_usageCount (fst (snd (Runway_assignAircraft 7 (Some 0) (Runway_new 0 RWY_C) heap0))) = 1"
proof -
  have refused: "assign_refused (Some 0) (Runway_new 0 RWY_B) heap0"
    by (simp add: assign_refused_def eligible_spec_def example_defs)
  have accepted: "\<not> assign_refused (Some 0) (Runway_new 0 RWY_C) heap0"
    by (simp add: assign_refused_def eligible_spec_def example_defs)
  have count0: "m_usageCount (Runway_new 0 RWY_C) = 0"
    by (simp add: Runway_new_def)
  show ?thesis
    using refused accepted count0
      assignAircraft_contract [of 7 "Some 0" "Runway_new 0 RWY_B" heap0]
      assignAircraft_contract [of 7 "Some 0" "Runway_new 0 RWY_C" heap0]
    by simp
qed

lemma step_occupied_only_in_use:
  "occupied_only_in_use (fst s) \<Longrightarrow> occupied_only_in_use (fst (Runway_step c s))"
  by (cases c; cases s)
     (auto simp: occupied_only_in_use_def Runway_assignAircraft_def Runway_releaseAircraft_def
        Runway_setStatus_def Let_def split: option.splits if_splits)

lemma step_in_use_iff_occupied:
  "in_use_iff_occupied (fst s) \<Longrightarrow> \<not> sets_in_use c \<Longrightarrow> in_use_iff_occupied (fst (Runway_step c s))"
  by (cases c; cases s)
     (auto simp: in_use_iff_occupied_def Runway_assignAircraft_def Runway_releaseAircraft_def
        Runway_setStatus_def Let_def split: option.splits if_splits)

lemma run_occupied_only_in_use:
  "occupied_only_in_use (fst s) \<Longrightarrow> occupied_only_in_use (fst (Runway_run cs s))"
  by (induction cs arbitrary: s) (simp_all add: step_occupied_only_in_use)

lemma run_in_use_iff_occupied:
  "in_use_iff_occupied (fst s) \<Longrightarrow> \<forall>c\<in>set cs. \<not> sets_in_use c \<Longrightarrow>
     in_use_iff_occupied (fst (Runway_run cs s))"
  by (induction cs arbitrary: s) (simp_all add: step_in_use_iff_occupied)

lemma step_to_in_use:
  "\<not> sets_in_use c \<Longrightarrow> Runway.m_status r \<noteq> IN_USE \<Longrightarrow>
     Runway.m_status (fst (Runway_step c (r, h))) = IN_USE \<Longrightarrow> Runway.m_status r = AVAILABLE"
  by (cases c)
     (auto simp: Runway_assignAircraft_def Runway_releaseAircraft_def
        Runway_setStatus_def Let_def split: option.splits if_splits)

text \<open>
  C1 as stated (status InUse iff an occupant is stored, under any sequence of
  \<^verbatim>\<open>assignAircraft\<close>, \<^verbatim>\<open>releaseAircraft\<close> and \<^verbatim>\<open>setStatus\<close>; only an Available runway
  becomes InUse) does not hold: \<^verbatim>\<open>setStatus(IN_USE)\<close> on a new runway gives status InUse
  with no occupant, and \<^verbatim>\<open>setStatus(IN_USE)\<close> on a runway under maintenance moves it
  from Maintenance to InUse.
\<close>

theorem setStatus_breaks_occupancy:
  "Runway.m_status (snd (Runway_setStatus 1 IN_USE (Runway_new 0 RWY_A))) = IN_USE
   \<and> m_assignedAircraft (snd (Runway_setStatus 1 IN_USE (Runway_new 0 RWY_A))) = None
   \<and> Runway.m_status (snd (Runway_setStatus 2 MAINTENANCE (Runway_new 0 RWY_A))) = MAINTENANCE
   \<and> Runway.m_status
       (snd (Runway_setStatus 3 IN_USE (snd (Runway_setStatus 2 MAINTENANCE (Runway_new 0 RWY_A)))))
       = IN_USE"
  by (simp add: Runway_setStatus_def Runway_new_def)

text \<open>
  C1, amended. For a runway created by the constructor and any sequence of calls of
  \<^verbatim>\<open>assignAircraft\<close>, \<^verbatim>\<open>releaseAircraft\<close> and \<^verbatim>\<open>setStatus\<close>: whenever an occupant is
  stored the status is InUse; if no call is \<^verbatim>\<open>setStatus(IN_USE)\<close>, the status is InUse
  iff an occupant is stored; and a call other than \<^verbatim>\<open>setStatus(IN_USE)\<close> moves a runway
  into InUse only from Available.
\<close>

theorem runway_occupancy:
  "(m_assignedAircraft (fst (Runway_run calls (Runway_new now0 ident, h0))) \<noteq> None
      \<longrightarrow> Runway.m_status (fst (Runway_run calls (Runway_new now0 ident, h0))) = IN_USE)
   \<and> ((\<forall>c\<in>set calls. \<not> sets_in_use c) \<longrightarrow>
        (Runway.m_status (fst (Runway_run calls (Runway_new now0 ident, h0))) = IN_USE
           \<longleftrightarrow> m_assignedAircraft (fst (Runway_run calls (Runway_new now0 ident, h0))) \<noteq> None))
   \<and> (\<not> sets_in_use c \<and> Runway.m_status r \<noteq> IN_USE
        \<and> Runway.m_status (fst (Runway_step c (r, h))) = IN_USE
      \<longrightarrow> Runway.m_status r = AVAILABLE)"
proof -
  have a: "occupied_only_in_use (fst (Runway_new now0 ident, h0))"
    by (simp add: occupied_only_in_use_def Runway_new_def)
  have b: "in_use_iff_occupied (fst (Runway_new now0 ident, h0))"
    by (simp add: in_use_iff_occupied_def Runway_new_def)
  show ?thesis
    using run_occupied_only_in_use [OF a, of calls] run_in_use_iff_occupied [OF b, of calls]
      step_to_in_use [of c r h]
    by (auto simp: occupied_only_in_use_def in_use_iff_occupied_def)
qed

text \<open>
  Assign, close for maintenance, reopen, assign again: the runway ends InUse with the
  aircraft as occupant, and the last call took it from Available to InUse.
\<close>

theorem runway_occupancy_witness:
  "filter sets_in_use example_calls = []
   \<and> m_assignedAircraft (fst (Runway_run example_calls (Runway_new 0 RWY_C, heap0))) = Some 0
   \<and> Runway.m_status (fst (Runway_run example_calls (Runway_new 0 RWY_C, heap0))) = IN_USE
   \<and> \<not> sets_in_use (AssignCall 4 (Some 0))
   \<and> Runway.m_status (Runway_new 0 RWY_C) = AVAILABLE
   \<and> Runway.m_status (fst (Runway_step (AssignCall 4 (Some 0)) (Runway_new 0 RWY_C, heap0))) = IN_USE"
proof -
  have run: "m_assignedAircraft (fst (Runway_run example_calls (Runway_new 0 RWY_C, heap0))) = Some 0"
    by (simp add: example_calls_def runway_defs example_defs)
  have step: "Runway.m_status (fst (Runway_step (AssignCall 4 (Some 0)) (Runway_new 0 RWY_C, heap0))) = IN_USE"
    by (simp add: runway_defs example_defs)
  have calls: "\<forall>c\<in>set example_calls. \<not> sets_in_use c"
    by (simp add: example_calls_def)
  have none: "filter sets_in_use example_calls = []"
    by (simp add: example_calls_def)
  show ?thesis
    using run step calls none
      runway_occupancy [of example_calls 0 RWY_C heap0 "AssignCall 4 (Some 0)" "Runway_new 0 RWY_C" heap0]
    by (simp add: Runway_new_def)
qed

text \<open>
  C8. For a runway that is Available with usage count \<open>n\<close> and total usage time
  \<open>t_prev\<close>, a successful \<^verbatim>\<open>assignAircraft(a)\<close> at clock reading \<open>t1\<close> followed by
  \<^verbatim>\<open>releaseAircraft(a)\<close> by the same aircraft at a later reading \<open>t2\<close> of the monotonic
  clock succeeds and leaves the runway Available with usage count \<open>n + 1\<close> and total
  usage time at least \<open>t_prev\<close>.
\<close>

theorem release_after_assign:
  assumes "Runway.m_status r = AVAILABLE"
    and "Runway_assignAircraft t1 ac r h = (True, r1, h1)"
    and "t1 \<le> t2"
  shows "fst (Runway_releaseAircraft t2 ac r1) = True
     \<and> Runway.m_status (snd (Runway_releaseAircraft t2 ac r1)) = AVAILABLE
     \<and> m_usageCount (snd (Runway_releaseAircraft t2 ac r1)) = m_usageCount r + 1
     \<and> m_totalUsageTime (snd (Runway_releaseAircraft t2 ac r1)) \<ge> m_totalUsageTime r"
  using assms
  by (auto simp: Runway_assignAircraft_def Runway_releaseAircraft_def duration_seconds_def
        sgn_if pos_imp_zdiv_nonneg_iff split: option.splits if_splits)

text \<open>A cargo aircraft takes the new RWY-C at tick 0 and releases it 2.5 seconds later.\<close>

theorem release_after_assign_witness:
  "Runway.m_status (Runway_new 0 RWY_C) = AVAILABLE
   \<and> fst (Runway_assignAircraft 0 (Some 0) (Runway_new 0 RWY_C) heap0) = True
   \<and> fst (Runway_releaseAircraft 2500000000 (Some 0) runway_c_assigned) = True
   \<and> Runway.m_status (snd (Runway_releaseAircraft 2500000000 (Some 0) runway_c_assigned)) = AVAILABLE
   \<and> m_usageCount (snd (Runway_releaseAircraft 2500000000 (Some 0) runway_c_assigned)) = 1
   \<and> m_totalUsageTime (snd (Runway_releaseAircraft 2500000000 (Some 0) runway_c_assigned)) \<ge> 0"
proof -
  have avail: "Runway.m_status (Runway_new 0 RWY_C) = AVAILABLE"
    by (simp add: Runway_new_def)
  have assign: "Runway_assignAircraft 0 (Some 0) (Runway_new 0 RWY_C) heap0
      = (True, runway_c_assigned, heap_c_assigned)"
    by (simp add: runway_c_assigned_def heap_c_assigned_def runway_defs example_defs)
  have clock: "(0::int) \<le> 2500000000" by simp
  have ok: "fst (Runway_assignAircraft 0 (Some 0) (Runway_new 0 RWY_C) heap0) = True"
    by (simp add: assign)
  have count0: "m_usageCount (Runway_new 0 RWY_C) = 0"
    and time0: "m_totalUsageTime (Runway_new 0 RWY_C) = 0"
    by (simp_all add: Runway_new_def)
  show ?thesis
    using avail ok count0 time0 release_after_assign [OF avail assign clock]
    by simp
qed


subsection \<open>Flight: the mutex\<close>

lemma lock_free:
  "\<not> Flight.m_mutex f \<Longrightarrow> Flight_lock f = Some (f\<lparr>Flight.m_mutex := True\<rparr>)"
  by (simp add: Flight_lock_def)

lemma lock_held:
  "Flight.m_mutex f \<Longrightarrow> Flight_lock f = None"
  by (simp add: Flight_lock_def)

lemma unlock_restores:
  "\<not> Flight.m_mutex f \<Longrightarrow> Flight_unlock (f\<lparr>Flight.m_mutex := True\<rparr>) = f"
  by (simp add: Flight_unlock_def)

text \<open>A locking method called while the mutex of the flight is held does not return.\<close>

lemma held_mutex_blocks:
  assumes "Flight.m_mutex f"
  shows "Flight_releaseRunway now f w = None"
    and "Flight_complete now f w = None"
    and "Flight_cancel now reason f w = None"
    and "Flight_divert now reason f w = None"
    and "Flight_handleGroundFault now f w = None"
    and "Flight_isReadyForNextPhase t f = None"
    and "Flight_executeFlightPlanStep t now drawn f w = None"
    and "Flight_update rnd dt t now speedDelta faultDraw drawn f w = None"
  using assms
  by (simp_all add: Flight_lock_def Flight_releaseRunway_def Flight_complete_def
        Flight_cancel_def Flight_divert_def Flight_handleGroundFault_def
        Flight_isReadyForNextPhase_def Flight_executeFlightPlanStep_def Flight_update_def)

subsection \<open>Flight: plan steps\<close>

text \<open>
  A due step that only moves the aircraft to its next phase, and is not the last step of
  the plan, returns the result of the phase transition and advances the plan, whether
  the transition succeeded or not.
\<close>

lemma execute_step_transition:
  assumes free: "\<not> Flight.m_mutex f"
    and ac: "m_aircraft f = Some p"
    and more: "m_currentPlanStep f + 1 < length (m_flightPlan f)"
    and due: "currentTime - m_activationTime f
                \<ge> relativeTimeOffset (m_flightPlan f ! m_currentPlanStep f)"
    and opn: "operation (m_flightPlan f ! m_currentPlanStep f) = TransitionOp"
  shows "Flight_executeFlightPlanStep currentTime now drawn f w =
           Some (fst (Aircraft_transitionToNextPhase drawn (aircraft w p)),
                 f\<lparr>m_currentPlanStep := m_currentPlanStep f + 1\<rparr>,
                 w\<lparr>aircraft := (aircraft w)
                      (p := snd (Aircraft_transitionToNextPhase drawn (aircraft w p)))\<rparr>)"
proof -
  have ne: "m_flightPlan f \<noteq> []" using more by auto
  show ?thesis
    using free ac more due opn ne
    by (cases "Aircraft_transitionToNextPhase drawn (aircraft w p)")
       (simp add: Flight_executeFlightPlanStep_def Flight_lock_def Flight_unlock_def
          run_operation_def run_transition_def Let_def)
qed

text \<open>
  A due step does not return when its closure calls \<^verbatim>\<open>releaseRunway()\<close> or
  \<^verbatim>\<open>complete()\<close>, and when it is the last step of the plan, after which
  \<^verbatim>\<open>executeFlightPlanStep\<close> itself calls \<^verbatim>\<open>complete()\<close>: the mutex is held.
\<close>

lemma execute_step_blocks:
  assumes free: "\<not> Flight.m_mutex f"
    and some: "m_currentPlanStep f < length (m_flightPlan f)"
    and due: "currentTime - m_activationTime f
                \<ge> relativeTimeOffset (m_flightPlan f ! m_currentPlanStep f)"
    and opn: "operation (m_flightPlan f ! m_currentPlanStep f) \<noteq> TransitionOp
              \<or> m_currentPlanStep f + 1 = length (m_flightPlan f)"
  shows "Flight_executeFlightPlanStep currentTime now drawn f w = None"
proof -
  have ne: "m_flightPlan f \<noteq> []" using some by auto
  let ?f = "f\<lparr>Flight.m_mutex := True\<rparr>"
  have held: "Flight.m_mutex ?f" by simp
  show ?thesis
  proof (cases "operation (m_flightPlan f ! m_currentPlanStep f)")
    case TransitionOp
    with opn have last_step: "m_currentPlanStep f + 1 = length (m_flightPlan f)" by simp
    show ?thesis
    proof (cases "m_aircraft f")
      case None
      with free some due ne TransitionOp show ?thesis
        by (simp add: Flight_executeFlightPlanStep_def Flight_lock_def run_operation_def
              run_transition_def)
    next
      case (Some p)
      with free some due ne TransitionOp last_step show ?thesis
        by (cases "Aircraft_transitionToNextPhase drawn (aircraft w p)")
           (simp add: Flight_executeFlightPlanStep_def Flight_lock_def run_operation_def
              run_transition_def Flight_complete_def Let_def)
    qed
  next
    case ReleaseThenTransitionOp
    with free some due ne show ?thesis
      by (simp add: Flight_executeFlightPlanStep_def Flight_lock_def run_operation_def
            Flight_releaseRunway_def)
  next
    case CompleteOp
    with free some due ne show ?thesis
      by (simp add: Flight_executeFlightPlanStep_def Flight_lock_def run_operation_def
            Flight_complete_def)
  qed
qed

text \<open>A step that is not due, or a plan that has run out, is refused without change.\<close>

lemma execute_step_refused:
  assumes free: "\<not> Flight.m_mutex f"
    and "m_currentPlanStep f \<ge> length (m_flightPlan f)
         \<or> currentTime - m_activationTime f
             < relativeTimeOffset (m_flightPlan f ! m_currentPlanStep f)"
  shows "Flight_executeFlightPlanStep currentTime now drawn f w = Some (False, f, w)"
  using assms
  by (auto simp: Flight_executeFlightPlanStep_def Flight_lock_def Flight_unlock_def)

subsection \<open>Flight: update\<close>

text \<open>
  \<^verbatim>\<open>Flight::update\<close> returns for a flight that is neither Active nor Emergency, which
  it leaves alone. For an Active or Emergency flight it goes on to
  \<^verbatim>\<open>handleGroundFault()\<close> or to \<^verbatim>\<open>isReadyForNextPhase()\<close> with the mutex held, and
  does not return.
\<close>

lemma update_idle:
  assumes "\<not> Flight.m_mutex f"
    and "Flight.m_status f \<noteq> ACTIVE" and "Flight.m_status f \<noteq> Flight_Status.EMERGENCY"
  shows "Flight_update rnd dt t now speedDelta faultDraw drawn f w = Some (f, w)"
  using assms by (simp add: Flight_update_def Flight_lock_def Flight_unlock_def)

lemma update_blocks:
  assumes "Flight.m_status f = ACTIVE \<or> Flight.m_status f = Flight_Status.EMERGENCY"
  shows "Flight_update rnd dt t now speedDelta faultDraw drawn f w = None"
proof (cases "Flight.m_mutex f")
  case True
  then show ?thesis by (simp add: Flight_update_def Flight_lock_def)
next
  case False
  then show ?thesis
    using assms
    by (auto simp: Flight_update_def Flight_lock_def Flight_handleGroundFault_def
          Flight_isReadyForNextPhase_def Let_def split: option.splits)
qed

subsection \<open>Flight: the example flights\<close>

lemmas flight_defs =
  Flight_new_def Flight_createFlightPlan_def Flight_createArrivalFlightPlan_def
  Flight_createDepartureFlightPlan_def Flight_createEmergencyFlightPlan_def
  Flight_calculateEstimatedCompletionTime_def Flight_assignRunway_def Flight_activate_def
  Flight_isValidStatusTransition_def Flight_lock_def Flight_unlock_def
  Flight_executeFlightPlanStep_def run_operation_def run_transition_def
  Flight_releaseRunway_def release_at_def Flight_complete_def release_if_assigned_def
  Flight_handleGroundFault_def Flight_setEmergency_def
  Aircraft_transitionToNextPhase_def Aircraft_getNextPhase_def
  Aircraft_isValidTransition_def Aircraft_simulateGroundFault_def isGroundPhase_def

lemmas run_defs =
  world0_def then_step_def scheduled_on_def active_on_def departure_at_takeoff_def
  departure_at_climb_def arrival_at_landing_def inject_fault_def active_faulty_def
  closed_faulty_def completed_faulty_def arrival_replanned_def arrival_replanned_taxi_def

lemma departure_takeoff_state:
  "\<exists>f w. departure_at_takeoff = Some (f, w)
     \<and> \<not> Flight.m_mutex f \<and> Flight.m_status f = ACTIVE \<and> m_aircraft f = Some 1
     \<and> Flight.m_assignedRunway f = Some 1 \<and> m_activationTime f = 0
     \<and> m_currentPlanStep f = 2
     \<and> map operation (m_flightPlan f)
         = [TransitionOp, TransitionOp, TransitionOp, ReleaseThenTransitionOp, CompleteOp]
     \<and> map relativeTimeOffset (m_flightPlan f) = [30, 60, 75, 90, 120]
     \<and> m_currentPhase (aircraft w 1) = TAKEOFF_ROLL
     \<and> Runway.m_status (runways w 1) = IN_USE
     \<and> m_assignedAircraft (runways w 1) = Some 1"
  by (simp add: run_defs flight_defs runway_defs example_defs Let_def)

lemma departure_climb_state:
  "\<exists>f w. departure_at_climb = Some (f, w)
     \<and> \<not> Flight.m_mutex f \<and> Flight.m_status f = ACTIVE \<and> m_aircraft f = Some 1
     \<and> Flight.m_assignedRunway f = Some 1 \<and> m_activationTime f = 0
     \<and> m_currentPlanStep f = 3
     \<and> map operation (m_flightPlan f)
         = [TransitionOp, TransitionOp, TransitionOp, ReleaseThenTransitionOp, CompleteOp]
     \<and> map relativeTimeOffset (m_flightPlan f) = [30, 60, 75, 90, 120]
     \<and> m_currentPhase (aircraft w 1) = CLIMB
     \<and> Runway.m_status (runways w 1) = IN_USE
     \<and> m_assignedAircraft (runways w 1) = Some 1"
  by (simp add: run_defs flight_defs runway_defs example_defs Let_def)

lemma arrival_approach_state:
  "\<exists>f w. then_step 30 30000000000 260 (active_on 0 0) = Some (f, w)
     \<and> Flight.m_status f = ACTIVE \<and> m_currentPlanStep f = 1
     \<and> m_currentPhase (aircraft w 0) = APPROACH"
  by (simp add: run_defs flight_defs runway_defs example_defs Let_def)

lemma arrival_landing_state:
  "\<exists>f w. arrival_at_landing = Some (f, w)
     \<and> \<not> Flight.m_mutex f \<and> Flight.m_status f = ACTIVE \<and> m_aircraft f = Some 0
     \<and> Flight.m_assignedRunway f = Some 0 \<and> m_activationTime f = 0
     \<and> m_currentPlanStep f = 2
     \<and> map operation (m_flightPlan f)
         = [TransitionOp, TransitionOp, ReleaseThenTransitionOp, TransitionOp, CompleteOp]
     \<and> map relativeTimeOffset (m_flightPlan f) = [30, 60, 90, 120, 150]
     \<and> m_currentPhase (aircraft w 0) = LANDING
     \<and> Runway.m_status (runways w 0) = IN_USE
     \<and> m_assignedAircraft (runways w 0) = Some 0"
  by (simp add: run_defs flight_defs runway_defs example_defs Let_def)

lemma arrival_replanned_state:
  "\<exists>f w. arrival_replanned = Some (f, w)
     \<and> \<not> Flight.m_mutex f \<and> Flight.m_status f = Flight_Status.EMERGENCY
     \<and> m_aircraft f = Some 0
     \<and> Flight.m_assignedRunway f = Some 0 \<and> m_activationTime f = 0
     \<and> m_currentPlanStep f = 0
     \<and> map operation (m_flightPlan f)
         = [TransitionOp, TransitionOp, ReleaseThenTransitionOp, TransitionOp, CompleteOp]
     \<and> map relativeTimeOffset (m_flightPlan f) = [15, 30, 45, 60, 75]
     \<and> m_currentPhase (aircraft w 0) = LANDING
     \<and> Runway.m_status (runways w 0) = IN_USE
     \<and> m_assignedAircraft (runways w 0) = Some 0"
  by (simp add: run_defs flight_defs runway_defs example_defs Let_def)

lemma arrival_replanned_taxi_state:
  "\<exists>f w. arrival_replanned_taxi = Some (f, w)
     \<and> Flight.m_status f = Flight_Status.EMERGENCY \<and> m_aircraft f = Some 0
     \<and> Flight.m_assignedRunway f = Some 0
     \<and> m_currentPlanStep f = 1
     \<and> m_currentPhase (aircraft w 0) = TAXI_IN
     \<and> Runway.m_status (runways w 0) = IN_USE
     \<and> m_assignedAircraft (runways w 0) = Some 0"
  by (simp add: run_defs flight_defs runway_defs example_defs Let_def)



lemma completed_faulty_state:
  "\<exists>f w. completed_faulty = Some (f, w)
     \<and> \<not> Flight.m_mutex f \<and> Flight.m_status f = COMPLETED \<and> m_aircraft f = Some 1
     \<and> Flight.m_assignedRunway f = None
     \<and> m_hasGroundFault (aircraft w 1)"
  by (simp add: run_defs flight_defs runway_defs example_defs Let_def)

subsection \<open>Flight: executing a plan\<close>

text \<open>
  C9. For an Active or Emergency flight whose next plan step is due,
  \<^verbatim>\<open>executeFlightPlanStep\<close> is to advance the plan index by one whatever the step's
  operation returns, and to mark the flight Completed once the index passes the last
  step. The code is written to do so (the increment follows the operation
  unconditionally, and \<^verbatim>\<open>complete()\<close> follows the increment), but it calls
  \<^verbatim>\<open>releaseRunway()\<close> and \<^verbatim>\<open>complete()\<close> while it holds the mutex that both lock.
  The North-bound arrival is constructed, takes RWY-A and is activated at time 0; its
  steps at times 30 and 60 return and advance the index to 1 and to 2. Its third step,
  due at 90, releases the runway before the transition: the call at time 90 does not
  return, and neither does any later call, so the index stays at 2 and the flight stays
  Active.
\<close>

theorem executeFlightPlanStep_blocks_at_release:
  "(case then_step 30 30000000000 260 (active_on 0 0) of
      None \<Rightarrow> False
    | Some (f, w) \<Rightarrow> m_currentPlanStep f = 1 \<and> m_currentPhase (aircraft w 0) = APPROACH)
   \<and> (case arrival_at_landing of
      None \<Rightarrow> False
    | Some (f, w) \<Rightarrow>
        Flight.m_status f = ACTIVE \<and> Flight.m_mutex f = False
        \<and> m_currentPlanStep f = 2 \<and> length (m_flightPlan f) = 5
        \<and> m_currentPhase (aircraft w 0) = LANDING
        \<and> operation (m_flightPlan f ! m_currentPlanStep f) = ReleaseThenTransitionOp
        \<and> relativeTimeOffset (m_flightPlan f ! m_currentPlanStep f) = 90
        \<and> m_activationTime f = 0
        \<and> Flight_executeFlightPlanStep 90 90000000000 20 f w = None
        \<and> Flight_executeFlightPlanStep 1000 1000000000000 20 f w = None)"
proof -
  obtain f1 w1 where s1: "then_step 30 30000000000 260 (active_on 0 0) = Some (f1, w1)"
    "m_currentPlanStep f1 = 1" "m_currentPhase (aircraft w1 0) = APPROACH"
    using arrival_approach_state by blast
  obtain f w where s: "arrival_at_landing = Some (f, w)"
    and free: "\<not> Flight.m_mutex f" and st: "Flight.m_status f = ACTIVE"
    and act: "m_activationTime f = 0" and idx: "m_currentPlanStep f = 2"
    and ops: "map operation (m_flightPlan f)
        = [TransitionOp, TransitionOp, ReleaseThenTransitionOp, TransitionOp, CompleteOp]"
    and offs: "map relativeTimeOffset (m_flightPlan f) = [30, 60, 90, 120, 150]"
    and ph: "m_currentPhase (aircraft w 0) = LANDING"
    using arrival_landing_state by (elim exE conjE) (rule that)
  have len: "length (m_flightPlan f) = 5"
    using arg_cong [OF ops, of length] by simp
  have op2: "operation (m_flightPlan f ! 2) = ReleaseThenTransitionOp"
    using arg_cong [OF ops, of "\<lambda>xs. xs ! 2"] len by simp
  have off2: "relativeTimeOffset (m_flightPlan f ! 2) = 90"
    using arg_cong [OF offs, of "\<lambda>xs. xs ! 2"] len by simp
  have b1: "Flight_executeFlightPlanStep 90 90000000000 20 f w = None"
    by (rule execute_step_blocks) (simp_all add: free idx len op2 off2 act)
  have b2: "Flight_executeFlightPlanStep 1000 1000000000000 20 f w = None"
    by (rule execute_step_blocks) (simp_all add: free idx len op2 off2 act)
  show ?thesis
    by (simp add: s1 s free st act idx len op2 off2 ph b1 b2)
qed

subsection \<open>Flight: the step that releases the runway\<close>

lemma plan_operations:
  assumes "m_aircraft f = Some p"
  shows "has_arrival_plan f \<longleftrightarrow>
           map operation (m_flightPlan f)
             = [TransitionOp, TransitionOp, ReleaseThenTransitionOp, TransitionOp, CompleteOp]"
    and "has_departure_plan f \<longleftrightarrow>
           map operation (m_flightPlan f)
             = [TransitionOp, TransitionOp, TransitionOp, ReleaseThenTransitionOp, CompleteOp]"
  using assms
  by (simp_all add: has_arrival_plan_def has_departure_plan_def
        Flight_createArrivalFlightPlan_def Flight_createDepartureFlightPlan_def)

text \<open>
  The constructor installs the arrival plan for an aircraft that arrives and the
  departure plan for one that departs; the emergency plans have the same operations.
\<close>

lemma constructed_plan:
  assumes "Flight_new (Some p) t emergency w = Some f"
  shows "m_aircraft f = Some p" and "\<not> Flight.m_mutex f" and "m_currentPlanStep f = 0"
    and "Aircraft_isArrival (aircraft w p) \<Longrightarrow> has_arrival_plan f"
    and "\<not> Aircraft_isArrival (aircraft w p) \<Longrightarrow> has_departure_plan f"
  using assms
  by (auto simp: Flight_new_def Flight_createFlightPlan_def Flight_lock_def Flight_unlock_def
        Flight_createEmergencyFlightPlan_def Flight_createArrivalFlightPlan_def
        Flight_createDepartureFlightPlan_def Flight_calculateEstimatedCompletionTime_def
        has_arrival_plan_def has_departure_plan_def Let_def split: if_splits)

lemma next_phase_reached:
  "m_currentPhase (snd (Aircraft_transitionToNextPhase drawn a)) = Aircraft_getNextPhase a"
  by (cases "m_currentPhase a")
     (simp_all add: Aircraft_transitionToNextPhase_def Aircraft_getNextPhase_def
        Aircraft_isValidTransition_def Let_def)

text \<open>
  C6 as stated (an arrival releases its runway at the step that enters TaxiIn, a
  departure at the step that enters Climb, and the runway is Available after that step)
  does not hold. The East-bound departure holds RWY-B and is activated at time 0; its
  steps at times 30, 60 and 75 are executed. After the third of them the aircraft is in
  Climb, the flight still holds RWY-B and RWY-B is still in use by the aircraft; the
  next step, which is the one that releases, does not return. The North-bound arrival
  holds RWY-A, has executed two steps and is in Landing when it is declared an
  emergency; the first step of its new plan takes it into TaxiIn, after which the
  flight still holds RWY-A and RWY-A is still in use by the aircraft.
\<close>

theorem departure_keeps_runway_in_climb:
  "(case departure_at_takeoff of
      None \<Rightarrow> False
    | Some (f, w) \<Rightarrow>
        has_departure_plan f \<and> m_currentPlanStep f = 2
        \<and> m_currentPhase (aircraft w 1) = TAKEOFF_ROLL
        \<and> Flight.m_assignedRunway f = Some 1
        \<and> Runway.m_status (runways w 1) = IN_USE)
   \<and> (case departure_at_climb of
      None \<Rightarrow> False
    | Some (f, w) \<Rightarrow>
        m_currentPlanStep f = 3
        \<and> m_currentPhase (aircraft w 1) = CLIMB
        \<and> Flight.m_assignedRunway f = Some 1
        \<and> Runway.m_status (runways w 1) = IN_USE
        \<and> m_assignedAircraft (runways w 1) = Some 1
        \<and> Flight_executeFlightPlanStep 90 90000000000 850 f w = None)
   \<and> (case arrival_replanned of
      None \<Rightarrow> False
    | Some (f, w) \<Rightarrow>
        has_arrival_plan f \<and> m_currentPlanStep f = 0
        \<and> m_currentPhase (aircraft w 0) = LANDING
        \<and> Flight.m_assignedRunway f = Some 0
        \<and> Runway.m_status (runways w 0) = IN_USE)
   \<and> (case arrival_replanned_taxi of
      None \<Rightarrow> False
    | Some (f, w) \<Rightarrow>
        m_currentPlanStep f = 1
        \<and> m_currentPhase (aircraft w 0) = TAXI_IN
        \<and> Flight.m_assignedRunway f = Some 0
        \<and> Runway.m_status (runways w 0) = IN_USE
        \<and> m_assignedAircraft (runways w 0) = Some 0)"
proof -
  obtain f2 w2 where s2: "departure_at_takeoff = Some (f2, w2)"
    and a2: "m_aircraft f2 = Some 1" "m_currentPlanStep f2 = 2"
      "map operation (m_flightPlan f2)
         = [TransitionOp, TransitionOp, TransitionOp, ReleaseThenTransitionOp, CompleteOp]"
      "m_currentPhase (aircraft w2 1) = TAKEOFF_ROLL"
      "Flight.m_assignedRunway f2 = Some 1" "Runway.m_status (runways w2 1) = IN_USE"
    using departure_takeoff_state by (elim exE conjE) (rule that)
  obtain f3 w3 where s3: "departure_at_climb = Some (f3, w3)"
    and a3: "\<not> Flight.m_mutex f3" "m_activationTime f3 = 0" "m_currentPlanStep f3 = 3"
      "map operation (m_flightPlan f3)
         = [TransitionOp, TransitionOp, TransitionOp, ReleaseThenTransitionOp, CompleteOp]"
      "map relativeTimeOffset (m_flightPlan f3) = [30, 60, 75, 90, 120]"
      "m_currentPhase (aircraft w3 1) = CLIMB"
      "Flight.m_assignedRunway f3 = Some 1" "Runway.m_status (runways w3 1) = IN_USE"
      "m_assignedAircraft (runways w3 1) = Some 1"
    using departure_climb_state by (elim exE conjE) (rule that)
  obtain g0 v0 where t0: "arrival_replanned = Some (g0, v0)"
    and b0: "m_aircraft g0 = Some 0" "m_currentPlanStep g0 = 0"
      "map operation (m_flightPlan g0)
         = [TransitionOp, TransitionOp, ReleaseThenTransitionOp, TransitionOp, CompleteOp]"
      "m_currentPhase (aircraft v0 0) = LANDING"
      "Flight.m_assignedRunway g0 = Some 0" "Runway.m_status (runways v0 0) = IN_USE"
    using arrival_replanned_state by (elim exE conjE) (rule that)
  obtain g1 v1 where t1: "arrival_replanned_taxi = Some (g1, v1)"
    and b1: "m_currentPlanStep g1 = 1" "m_currentPhase (aircraft v1 0) = TAXI_IN"
      "Flight.m_assignedRunway g1 = Some 0" "Runway.m_status (runways v1 0) = IN_USE"
      "m_assignedAircraft (runways v1 0) = Some 0"
    using arrival_replanned_taxi_state by (elim exE conjE) (rule that)
  have len: "length (m_flightPlan f3) = 5"
    using arg_cong [OF a3(4), of length] by simp
  have op3: "operation (m_flightPlan f3 ! 3) = ReleaseThenTransitionOp"
    using arg_cong [OF a3(4), of "\<lambda>xs. xs ! 3"] len by simp
  have off3: "relativeTimeOffset (m_flightPlan f3 ! 3) = 90"
    using arg_cong [OF a3(5), of "\<lambda>xs. xs ! 3"] len by simp
  have blocks: "Flight_executeFlightPlanStep 90 90000000000 850 f3 w3 = None"
    by (rule execute_step_blocks) (simp_all add: a3 len op3 off3)
  have d: "has_departure_plan f2" using plan_operations(2) [OF a2(1)] a2(3) by simp
  have a: "has_arrival_plan g0" using plan_operations(1) [OF b0(1)] b0(3) by simp
  show ?thesis
    using a2 a3 b0 b1 blocks d a by (simp add: s2 s3 t0 t1)
qed

text \<open>
  C6, amended. Each plan binds the release of the runway to one of its steps: the third
  step of an arrival plan and the fourth step of a departure plan. For a flight in step
  with its plan these are the step that enters TaxiIn (arrival) and the step that enters
  Cruise (departure), the one after the step that enters Climb. Every other step before
  the last one, when it is due, returns, advances the plan by one, moves the aircraft to
  its next phase (if it has one) and leaves every runway and the flight's hold on its
  runway as they were.
\<close>

theorem runway_release_step:
  assumes free: "\<not> Flight.m_mutex f"
    and ac: "m_aircraft f = Some p"
    and plan: "has_arrival_plan f \<or> has_departure_plan f"
    and idx: "m_currentPlanStep f < 4"
    and due: "currentTime - m_activationTime f
                \<ge> relativeTimeOffset (m_flightPlan f ! m_currentPlanStep f)"
  shows "(operation (m_flightPlan f ! m_currentPlanStep f) = ReleaseThenTransitionOp
            \<longleftrightarrow> has_arrival_plan f \<and> m_currentPlanStep f = 2
                \<or> has_departure_plan f \<and> m_currentPlanStep f = 3)
     \<and> (in_step f w \<longrightarrow>
          (operation (m_flightPlan f ! m_currentPlanStep f) = ReleaseThenTransitionOp
             \<longleftrightarrow> has_arrival_plan f \<and> Aircraft_getNextPhase (aircraft w p) = TAXI_IN
                 \<or> has_departure_plan f \<and> Aircraft_getNextPhase (aircraft w p) = CRUISE))
     \<and> (operation (m_flightPlan f ! m_currentPlanStep f) \<noteq> ReleaseThenTransitionOp \<longrightarrow>
          (\<exists>ok f' w'.
             Flight_executeFlightPlanStep currentTime now drawn f w = Some (ok, f', w')
             \<and> runways w' = runways w
             \<and> Flight.m_assignedRunway f' = Flight.m_assignedRunway f
             \<and> m_currentPlanStep f' = m_currentPlanStep f + 1
             \<and> m_currentPhase (aircraft w' p) = Aircraft_getNextPhase (aircraft w p)))"
proof -
  let ?i = "m_currentPlanStep f"
  let ?ops = "map operation (m_flightPlan f)"
  have len: "length (m_flightPlan f) = 5"
    using plan plan_operations [OF ac] arg_cong [of ?ops _ length] by auto
  have nth: "operation (m_flightPlan f ! ?i) = ?ops ! ?i"
    using idx len by simp
  have cases_i: "?i = 0 \<or> ?i = 1 \<or> ?i = 2 \<or> ?i = 3"
    using idx by arith
  have excl: "\<not> (has_arrival_plan f \<and> has_departure_plan f)"
    using plan_operations [OF ac] by auto
  have which: "operation (m_flightPlan f ! ?i) = ReleaseThenTransitionOp
            \<longleftrightarrow> has_arrival_plan f \<and> ?i = 2 \<or> has_departure_plan f \<and> ?i = 3"
    using plan cases_i excl plan_operations [OF ac] nth by auto
  have other: "operation (m_flightPlan f ! ?i) = TransitionOp"
    if "operation (m_flightPlan f ! ?i) \<noteq> ReleaseThenTransitionOp"
    using that plan cases_i plan_operations [OF ac] nth by auto
  have phases: "operation (m_flightPlan f ! ?i) = ReleaseThenTransitionOp
             \<longleftrightarrow> has_arrival_plan f \<and> Aircraft_getNextPhase (aircraft w p) = TAXI_IN
                 \<or> has_departure_plan f \<and> Aircraft_getNextPhase (aircraft w p) = CRUISE"
    if "in_step f w"
  proof -
    have "has_arrival_plan f \<and> m_currentPhase (aircraft w p) = arrival_phases ! ?i
          \<or> has_departure_plan f \<and> m_currentPhase (aircraft w p) = departure_phases ! ?i"
      using that ac by (simp add: in_step_def)
    then show ?thesis
      using cases_i excl which
      by (auto simp: arrival_phases_def departure_phases_def Aircraft_getNextPhase_def)
  qed
  have returns: "\<exists>ok f' w'.
             Flight_executeFlightPlanStep currentTime now drawn f w = Some (ok, f', w')
             \<and> runways w' = runways w
             \<and> Flight.m_assignedRunway f' = Flight.m_assignedRunway f
             \<and> m_currentPlanStep f' = m_currentPlanStep f + 1
             \<and> m_currentPhase (aircraft w' p) = Aircraft_getNextPhase (aircraft w p)"
    if "operation (m_flightPlan f ! ?i) \<noteq> ReleaseThenTransitionOp"
  proof -
    have more: "?i + 1 < length (m_flightPlan f)" using idx len by simp
    show ?thesis
      using execute_step_transition [OF free ac more due other [OF that], of now drawn w]
        next_phase_reached [of drawn "aircraft w p"]
      by simp
  qed
  show ?thesis
    using which phases returns by blast
qed

text \<open>
  The departure before its third step, which enters Climb and keeps RWY-B, and the
  arrival before its third step, which enters TaxiIn and is the one bound to the
  release.
\<close>

theorem runway_release_step_witness:
  "(case departure_at_takeoff of
      None \<Rightarrow> False
    | Some (f, w) \<Rightarrow>
        \<not> Flight.m_mutex f \<and> m_aircraft f = Some 1 \<and> has_departure_plan f
        \<and> m_currentPlanStep f = 2
        \<and> 75 - m_activationTime f \<ge> relativeTimeOffset (m_flightPlan f ! m_currentPlanStep f)
        \<and> in_step f w
        \<and> operation (m_flightPlan f ! m_currentPlanStep f) \<noteq> ReleaseThenTransitionOp
        \<and> Aircraft_getNextPhase (aircraft w 1) = CLIMB
        \<and> (\<exists>ok f' w'.
             Flight_executeFlightPlanStep 75 75000000000 300 f w = Some (ok, f', w')
             \<and> runways w' = runways w
             \<and> Flight.m_assignedRunway f' = Some 1
             \<and> m_currentPlanStep f' = 3
             \<and> m_currentPhase (aircraft w' 1) = CLIMB))
   \<and> (case arrival_at_landing of
      None \<Rightarrow> False
    | Some (f, w) \<Rightarrow>
        \<not> Flight.m_mutex f \<and> m_aircraft f = Some 0 \<and> has_arrival_plan f
        \<and> m_currentPlanStep f = 2
        \<and> 90 - m_activationTime f \<ge> relativeTimeOffset (m_flightPlan f ! m_currentPlanStep f)
        \<and> in_step f w
        \<and> Aircraft_getNextPhase (aircraft w 0) = TAXI_IN
        \<and> operation (m_flightPlan f ! m_currentPlanStep f) = ReleaseThenTransitionOp)"
proof -
  obtain f w where s: "departure_at_takeoff = Some (f, w)"
    and a: "\<not> Flight.m_mutex f" "m_aircraft f = Some 1" "m_activationTime f = 0"
      "m_currentPlanStep f = 2"
      "map operation (m_flightPlan f)
         = [TransitionOp, TransitionOp, TransitionOp, ReleaseThenTransitionOp, CompleteOp]"
      "map relativeTimeOffset (m_flightPlan f) = [30, 60, 75, 90, 120]"
      "m_currentPhase (aircraft w 1) = TAKEOFF_ROLL"
      "Flight.m_assignedRunway f = Some 1"
    using departure_takeoff_state by (elim exE conjE) (rule that)
  obtain g v where t: "arrival_at_landing = Some (g, v)"
    and b: "\<not> Flight.m_mutex g" "m_aircraft g = Some 0" "m_activationTime g = 0"
      "m_currentPlanStep g = 2"
      "map operation (m_flightPlan g)
         = [TransitionOp, TransitionOp, ReleaseThenTransitionOp, TransitionOp, CompleteOp]"
      "map relativeTimeOffset (m_flightPlan g) = [30, 60, 90, 120, 150]"
      "m_currentPhase (aircraft v 0) = LANDING"
    using arrival_landing_state by (elim exE conjE) (rule that)
  have lf: "length (m_flightPlan f) = 5" using arg_cong [OF a(5), of length] by simp
  have lg: "length (m_flightPlan g) = 5" using arg_cong [OF b(5), of length] by simp
  have df: "has_departure_plan f" using plan_operations(2) [OF a(2)] a(5) by simp
  have ag: "has_arrival_plan g" using plan_operations(1) [OF b(2)] b(5) by simp
  have off_f: "relativeTimeOffset (m_flightPlan f ! 2) = 75"
    using arg_cong [OF a(6), of "\<lambda>xs. xs ! 2"] lf by simp
  have off_g: "relativeTimeOffset (m_flightPlan g ! 2) = 90"
    using arg_cong [OF b(6), of "\<lambda>xs. xs ! 2"] lg by simp
  have op_f: "operation (m_flightPlan f ! 2) = TransitionOp"
    using arg_cong [OF a(5), of "\<lambda>xs. xs ! 2"] lf by simp
  have due_f: "75 - m_activationTime f \<ge> relativeTimeOffset (m_flightPlan f ! m_currentPlanStep f)"
    by (simp add: a off_f)
  have due_g: "90 - m_activationTime g \<ge> relativeTimeOffset (m_flightPlan g ! m_currentPlanStep g)"
    by (simp add: b off_g)
  have in_f: "in_step f w"
    using a df by (simp add: in_step_def departure_phases_def)
  have in_g: "in_step g v"
    using b ag by (simp add: in_step_def arrival_phases_def)
  have next_f: "Aircraft_getNextPhase (aircraft w 1) = CLIMB"
    using a by (simp add: Aircraft_getNextPhase_def)
  have next_g: "Aircraft_getNextPhase (aircraft v 0) = TAXI_IN"
    using b by (simp add: Aircraft_getNextPhase_def)
  have i4: "m_currentPlanStep f < 4" "m_currentPlanStep g < 4" by (simp_all add: a b)
  have not_rel: "operation (m_flightPlan f ! m_currentPlanStep f) \<noteq> ReleaseThenTransitionOp"
    by (simp add: a op_f)
  have r_f: "\<exists>ok f' w'.
             Flight_executeFlightPlanStep 75 75000000000 300 f w = Some (ok, f', w')
             \<and> runways w' = runways w
             \<and> Flight.m_assignedRunway f' = Some 1
             \<and> m_currentPlanStep f' = 3
             \<and> m_currentPhase (aircraft w' 1) = CLIMB"
    using runway_release_step [OF a(1) a(2) disjI2 [OF df] i4(1) due_f,
        of w 75000000000 300] not_rel next_f a(4) a(8)
    by simp
  have r_g: "operation (m_flightPlan g ! m_currentPlanStep g) = ReleaseThenTransitionOp"
    using runway_release_step [OF b(1) b(2) disjI1 [OF ag] i4(2) due_g,
        of v 90000000000 20] ag b(4)
    by simp
  show ?thesis
    using a(1,2,4) b(1,2,4) df ag due_f due_g in_f in_g next_f next_g not_rel r_f r_g
    by (simp add: s t)
qed

subsection \<open>Flight: ground faults\<close>





subsection \<open>Flight: the status graph\<close>

lemma valid_is_edge:
  "Flight_isValidStatusTransition f t = edge (Flight.m_status f) t"
  by (cases "Flight.m_status f") (auto simp: Flight_isValidStatusTransition_def edge_def)

lemma status_kept:
  "Flight.m_status (Flight_calculateEstimatedCompletionTime f) = Flight.m_status f"
  "Flight.m_status (snd (Flight_createEmergencyFlightPlan f w)) = Flight.m_status f"
  "Flight.m_status (Flight_unlock f) = Flight.m_status f"
  "Flight.m_status (fst (release_if_assigned now f w)) = Flight.m_status f"
  by (simp_all add: Flight_calculateEstimatedCompletionTime_def Let_def Flight_unlock_def
        Flight_createEmergencyFlightPlan_def release_if_assigned_def split: option.splits)

lemma activate_follows_graph:
  assumes "Flight_activate t f = Some (ok, f')"
  shows "Flight.m_status f' = Flight.m_status f
         \<or> edge (Flight.m_status f) (Flight.m_status f')"
proof (cases "edge (Flight.m_status f) ACTIVE")
  case True
  then have "Flight.m_status f = SCHEDULED"
    by (cases "Flight.m_status f") (simp_all add: edge_def)
  with assms show ?thesis
    by (auto simp: Flight_activate_def Flight_lock_def valid_is_edge status_kept edge_def
          split: if_splits)
next
  case False
  with assms show ?thesis
    by (auto simp: Flight_activate_def Flight_lock_def valid_is_edge status_kept
          split: if_splits)
qed

lemma complete_follows_graph:
  assumes "Flight_complete now f w = Some (ok, f', w')"
  shows "Flight.m_status f' = Flight.m_status f
         \<or> edge (Flight.m_status f) (Flight.m_status f')"
  using assms
  by (cases "release_if_assigned now (f\<lparr>Flight.m_mutex := True\<rparr>) w")
     (auto simp: Flight_complete_def Flight_lock_def valid_is_edge status_kept
        split: if_splits)

lemma cancel_follows_graph:
  assumes "Flight_cancel now reason f w = Some (ok, f', w')"
  shows "Flight.m_status f' = Flight.m_status f
         \<or> edge (Flight.m_status f) (Flight.m_status f')"
  using assms
  by (cases "release_if_assigned now (f\<lparr>Flight.m_mutex := True\<rparr>) w")
     (auto simp: Flight_cancel_def Flight_lock_def valid_is_edge status_kept
        split: if_splits)

lemma divert_follows_graph:
  assumes "Flight_divert now reason f w = Some (ok, f', w')"
  shows "Flight.m_status f' = Flight.m_status f
         \<or> edge (Flight.m_status f) (Flight.m_status f')"
  using assms
  by (cases "release_if_assigned now (f\<lparr>Flight.m_mutex := True\<rparr>) w")
     (auto simp: Flight_divert_def Flight_lock_def valid_is_edge status_kept
        split: if_splits)

lemma setEmergency_follows_graph:
  assumes "Flight_setEmergency b f w = Some f'"
  shows "Flight.m_status f' = Flight.m_status f
         \<or> edge (Flight.m_status f) (Flight.m_status f')"
proof (cases "Flight.m_status f = SCHEDULED \<or> Flight.m_status f = ACTIVE")
  case False
  with assms show ?thesis
    by (auto simp: Flight_setEmergency_def Flight_lock_def status_kept split: if_splits)
next
  case True
  then have e: "edge (Flight.m_status f) Flight_Status.EMERGENCY"
    by (auto simp: edge_def)
  from True have n: "Flight.m_status f \<noteq> Flight_Status.EMERGENCY" by auto
  show ?thesis
  proof (cases b)
    case True
    with assms \<open>Flight.m_status f = SCHEDULED \<or> Flight.m_status f = ACTIVE\<close> n e
    show ?thesis
      by (auto simp: Flight_setEmergency_def Flight_lock_def status_kept Let_def
            split: if_splits)
  next
    case False
    with assms \<open>Flight.m_status f = SCHEDULED \<or> Flight.m_status f = ACTIVE\<close> n
    show ?thesis
      by (auto simp: Flight_setEmergency_def Flight_lock_def status_kept Let_def
            split: if_splits)
  qed
qed

lemma update_keeps_status:
  assumes "Flight_update rnd dt t now speedDelta faultDraw drawn f w = Some (f', w')"
  shows "Flight.m_status f' = Flight.m_status f"
  using assms update_blocks [of f rnd dt t now speedDelta faultDraw drawn w]
    update_idle [of f rnd dt t now speedDelta faultDraw drawn w]
    held_mutex_blocks(8) [of f rnd dt t now speedDelta faultDraw drawn w]
  by (cases "Flight.m_mutex f") auto

lemma refused_operations_change_nothing:
  assumes "\<not> Flight.m_mutex f"
  shows "\<not> edge (Flight.m_status f) ACTIVE \<Longrightarrow> Flight_activate t f = Some (False, f)"
    and "\<not> edge (Flight.m_status f) COMPLETED \<Longrightarrow>
           Flight_complete now f w = Some (False, f, w)"
    and "\<not> edge (Flight.m_status f) CANCELED \<Longrightarrow>
           Flight_cancel now reason f w = Some (False, f, w)"
    and "\<not> edge (Flight.m_status f) DIVERTED \<Longrightarrow>
           Flight_divert now reason f w = Some (False, f, w)"
  using assms
  by (simp_all add: Flight_activate_def Flight_complete_def Flight_cancel_def
        Flight_divert_def valid_is_edge Flight_lock_def Flight_unlock_def)

text \<open>
  C3. Every status change made by the public operations of a flight follows an edge of
  the status graph, and an operation whose target is not reachable returns failure and
  leaves the status unchanged; in particular a second \<^verbatim>\<open>complete()\<close> on a Completed
  flight is a refused no-op. \<^verbatim>\<open>handleGroundFault\<close> does not keep to this: on the
  Completed flight whose aircraft has developed a ground fault, \<^verbatim>\<open>complete()\<close> is
  refused and leaves the status alone, \<^verbatim>\<open>cancel\<close> is refused too, but
  \<^verbatim>\<open>handleGroundFault()\<close> returns true and moves the status from Completed to Canceled,
  which is no edge of the graph.
\<close>

theorem handleGroundFault_leaves_terminal_status:
  "case completed_faulty of
     None \<Rightarrow> False
   | Some (f, w) \<Rightarrow>
       Flight.m_status f = COMPLETED
       \<and> m_hasGroundFault (aircraft w 1) = True
       \<and> Flight_isValidStatusTransition f CANCELED = False
       \<and> edge COMPLETED CANCELED = False
       \<and> Flight_complete 6000000000 f w = Some (False, f, w)
       \<and> Flight_cancel 6000000000 ''late'' f w = Some (False, f, w)
       \<and> map_option fst (Flight_handleGroundFault 6000000000 f w) = Some True
       \<and> map_option (\<lambda>r. Flight.m_status (fst (snd r)))
           (Flight_handleGroundFault 6000000000 f w) = Some CANCELED"
proof -
  obtain f w where s: "completed_faulty = Some (f, w)"
    and a: "\<not> Flight.m_mutex f" "Flight.m_status f = COMPLETED" "m_aircraft f = Some 1"
      "Flight.m_assignedRunway f = None" "m_hasGroundFault (aircraft w 1)"
    using completed_faulty_state by (elim exE conjE) (rule that)
  have h: "map_option fst (Flight_handleGroundFault 6000000000 f w) = Some True"
    "map_option (\<lambda>r. Flight.m_status (fst (snd r)))
       (Flight_handleGroundFault 6000000000 f w) = Some CANCELED"
    using a
    by (simp_all add: Flight_handleGroundFault_def Flight_lock_def Flight_unlock_def
          release_if_assigned_def)
  have r: "Flight_complete 6000000000 f w = Some (False, f, w)"
    "Flight_cancel 6000000000 ''late'' f w = Some (False, f, w)"
    using a
    by (simp_all add: Flight_complete_def Flight_cancel_def Flight_lock_def Flight_unlock_def
          Flight_isValidStatusTransition_def)
  show ?thesis
    using h r a by (simp add: s Flight_isValidStatusTransition_def edge_def)
qed


subsection \<open>Airline\<close>



text \<open>Called on its own, \<^verbatim>\<open>createAircraft\<close> adds an aircraft when there is room.\<close>

lemma createAircraft_result:
  assumes "\<not> Airline.m_mutex a" and "Airline_canScheduleFlight a"
  shows "\<exists>a' h'. Airline_createAircraft direction e d a h = Some (Some (newAddress d), a', h')
       \<and> m_lastFlightScheduleTime a' = m_lastFlightScheduleTime a
       \<and> m_activeFlights a' = m_activeFlights a + 1"
  using assms
  by (simp add: Airline_createAircraft_def Airline_lock_def Airline_unlock_def
        Airline_canScheduleFlight_def Let_def)






subsection \<open>SpeedMonitor\<close>

lemma recordSpeedDataPoint_keeps:
  "m_violations (SpeedMonitor_recordSpeedDataPoint ident speed mon) = m_violations mon"
  by (simp add: SpeedMonitor_recordSpeedDataPoint_def Let_def)

lemma monitor_out_of_bounds:
  assumes "out_of_bounds (h p)"
  shows "fst (SpeedMonitor_monitorAircraftSpeed rnd fmt phaseStr (Some p) t mon h) = True
    \<and> length (m_violations (fst (snd (SpeedMonitor_monitorAircraftSpeed rnd fmt phaseStr (Some p) t mon h))))
        = length (m_violations mon) + 1
    \<and> aircraftId (last (m_violations (fst (snd (SpeedMonitor_monitorAircraftSpeed rnd fmt phaseStr (Some p) t mon h)))))
        = Aircraft.m_id (h p)
    \<and> length (m_activeAVNs (snd (snd (SpeedMonitor_monitorAircraftSpeed rnd fmt phaseStr (Some p) t mon h)) p))
        = length (m_activeAVNs (h p)) + 1
    \<and> m_currentPhase (snd (snd (SpeedMonitor_monitorAircraftSpeed rnd fmt phaseStr (Some p) t mon h)) p)
        = m_currentPhase (h p)
    \<and> m_currentSpeed (snd (snd (SpeedMonitor_monitorAircraftSpeed rnd fmt phaseStr (Some p) t mon h)) p)
        = m_currentSpeed (h p)"
  using assms
  by (auto simp: out_of_bounds_def SpeedMonitor_monitorAircraftSpeed_def
        SpeedMonitor_recordViolation_def SpeedMonitor_generateAVN_def Aircraft_issueAVN_def
        recordSpeedDataPoint_keeps Let_def)

lemma monitor_times_out_of_bounds:
  "out_of_bounds (snd s p) \<Longrightarrow>
     length (m_violations (fst (monitor_times rnd fmt phaseStr (Some p) ts s)))
       = length (m_violations (fst s)) + length ts
     \<and> length (m_activeAVNs (snd (monitor_times rnd fmt phaseStr (Some p) ts s) p))
       = length (m_activeAVNs (snd s p)) + length ts
     \<and> m_currentPhase (snd (monitor_times rnd fmt phaseStr (Some p) ts s) p) = m_currentPhase (snd s p)"
proof (induction ts arbitrary: s)
  case Nil
  then show ?case by simp
next
  case (Cons t ts)
  let ?r = "SpeedMonitor_monitorAircraftSpeed rnd fmt phaseStr (Some p) t (fst s) (snd s)"
  have step: "length (m_violations (fst (snd ?r))) = length (m_violations (fst s)) + 1"
    "length (m_activeAVNs (snd (snd ?r) p)) = length (m_activeAVNs (snd s p)) + 1"
    "m_currentPhase (snd (snd ?r) p) = m_currentPhase (snd s p)"
    "m_currentSpeed (snd (snd ?r) p) = m_currentSpeed (snd s p)"
    using monitor_out_of_bounds [where h = "snd s" and p = p and fmt = fmt and rnd = rnd and phaseStr = phaseStr
        and t = t and mon = "fst s"] Cons.prems
    by simp_all
  have "out_of_bounds (snd (snd ?r) p)"
    using Cons.prems step(3,4) by (simp add: out_of_bounds_def)
  from Cons.IH [OF this] step show ?case by simp
qed

text \<open>
  C2 as stated (after a violation is recorded, no second AVN is issued while the aircraft
  stays in the same phase, so at most one record is created per phase) does not hold.
  The aircraft holding at 650 km/h (bounds 400 to 600) is monitored at times 1 and 2
  without leaving Holding: both calls fire, two records for the same aircraft and phase
  are stored and two AVNs are issued to it.
\<close>

theorem monitor_fires_again_in_same_phase:
  "m_currentPhase (heap_fast 0) = HOLDING
   \<and> m_currentSpeed (heap_fast 0) = Finite 650
   \<and> fst (SpeedMonitor_monitorAircraftSpeed exact no_number no_phase (Some 0) 1 SpeedMonitor_new heap_fast)
       = True
   \<and> length (m_violations (fst (monitor_times exact no_number no_phase (Some 0) [1]
                                   (SpeedMonitor_new, heap_fast)))) = 1
   \<and> m_currentPhase (snd (monitor_times exact no_number no_phase (Some 0) [1]
                             (SpeedMonitor_new, heap_fast)) 0) = HOLDING
   \<and> length (m_violations (fst (monitor_times exact no_number no_phase (Some 0) [1, 2]
                                   (SpeedMonitor_new, heap_fast)))) = 2
   \<and> map aircraftId (m_violations (fst (monitor_times exact no_number no_phase (Some 0) [1, 2]
                                          (SpeedMonitor_new, heap_fast)))) = [''BD100'', ''BD100'']
   \<and> map phase (m_violations (fst (monitor_times exact no_number no_phase (Some 0) [1, 2]
                                     (SpeedMonitor_new, heap_fast)))) = [HOLDING, HOLDING]
   \<and> length (m_activeAVNs (snd (monitor_times exact no_number no_phase (Some 0) [1, 2]
                                   (SpeedMonitor_new, heap_fast)) 0)) = 2"
  by (simp add: heap_fast_def no_number_def no_phase_def SpeedMonitor_new_def
        SpeedMonitor_monitorAircraftSpeed_def SpeedMonitor_recordSpeedDataPoint_def
        SpeedMonitor_getSpeedLimitsForPhase_def SpeedMonitor_detectRapidSpeedChanges_def
        SpeedMonitor_recordViolation_def SpeedMonitor_generateViolationDescription_def
        SpeedMonitor_generateAVN_def Aircraft_issueAVN_def Aircraft_setSpeed_def count_up_def
        example_defs exact_def Let_def)

text \<open>
  C2, amended. \<^verbatim>\<open>SpeedMonitor::monitorAircraftSpeed\<close> keeps no record of the phases in
  which an aircraft has already violated: every call at which the speed of the aircraft
  is outside the bounds of its current phase returns true, appends one violation record
  and issues one AVN to the aircraft. A sequence of \<open>n\<close> such calls, during which the
  phase does not change, creates \<open>n\<close> records and \<open>n\<close> AVNs.
\<close>

theorem monitor_fires_every_call:
  assumes "out_of_bounds (h p)"
  shows "fst (SpeedMonitor_monitorAircraftSpeed rnd fmt phaseStr (Some p) t mon h) = True
    \<and> length (m_violations (fst (monitor_times rnd fmt phaseStr (Some p) ts (mon, h))))
        = length (m_violations mon) + length ts
    \<and> length (m_activeAVNs (snd (monitor_times rnd fmt phaseStr (Some p) ts (mon, h)) p))
        = length (m_activeAVNs (h p)) + length ts
    \<and> m_currentPhase (snd (monitor_times rnd fmt phaseStr (Some p) ts (mon, h)) p) = m_currentPhase (h p)"
  using monitor_out_of_bounds [where h = h and p = p and fmt = fmt and rnd = rnd and phaseStr = phaseStr
      and t = t and mon = mon]
    monitor_times_out_of_bounds [where s = "(mon, h)" and p = p and fmt = fmt and rnd = rnd
      and phaseStr = phaseStr and ts = ts] assms
  by simp

text \<open>Three calls for the aircraft holding at 650 km/h: three records, three AVNs.\<close>

theorem monitor_fires_every_call_witness:
  "out_of_bounds (heap_fast 0)
   \<and> length (m_violations (fst (monitor_times exact no_number no_phase (Some 0) [1, 2, 3]
                                   (SpeedMonitor_new, heap_fast)))) = 3
   \<and> length (m_activeAVNs (snd (monitor_times exact no_number no_phase (Some 0) [1, 2, 3]
                                   (SpeedMonitor_new, heap_fast)) 0)) = 3"
proof -
  have fast: "out_of_bounds (heap_fast 0)"
    by (simp add: out_of_bounds_def heap_fast_def Aircraft_setSpeed_def
          SpeedMonitor_getSpeedLimitsForPhase_def example_defs)
  have none: "m_violations SpeedMonitor_new = []" "m_activeAVNs (heap_fast 0) = []"
    by (simp_all add: SpeedMonitor_new_def heap_fast_def Aircraft_setSpeed_def example_defs)
  show ?thesis
    using fast none
      monitor_fires_every_call [where h = heap_fast and p = 0 and rnd = exact and fmt = no_number
        and phaseStr = no_phase and t = 1 and mon = SpeedMonitor_new and ts = "[1, 2, 3]"]
    by simp
qed

subsection \<open>Aircraft speed\<close>

lemma table_ordered:
  "map_of SPEED_LIMITS ph = Some limits \<Longrightarrow> min_lim limits \<le> max_lim limits"
  by (cases ph) (auto simp: SPEED_LIMITS_def)

text \<open>
  When the sum of the old speed and the change is a number or an infinity,
  \<^verbatim>\<open>updateSpeed\<close> stores the sum if it lies within the bounds of the phase, the
  minimum if it lies below and the maximum if it lies above them; the stored speed is
  then within the bounds.
\<close>

lemma updateSpeed_in_bounds:
  assumes lim: "map_of SPEED_LIMITS (m_currentPhase a) = Some limits"
    and sum: "dadd rnd (m_currentSpeed a) speedDelta = s"
    and num: "s \<noteq> NaN"
  shows "fst (Aircraft_updateSpeed rnd speedDelta a) = True"
    and "dless s (Finite (min_lim limits)) \<Longrightarrow>
           m_currentSpeed (snd (Aircraft_updateSpeed rnd speedDelta a)) = Finite (min_lim limits)"
    and "dless (Finite (max_lim limits)) s \<Longrightarrow>
           m_currentSpeed (snd (Aircraft_updateSpeed rnd speedDelta a)) = Finite (max_lim limits)"
    and "dle (Finite (min_lim limits)) s \<Longrightarrow> dle s (Finite (max_lim limits)) \<Longrightarrow>
           m_currentSpeed (snd (Aircraft_updateSpeed rnd speedDelta a)) = s"
    and "dle (Finite (min_lim limits))
           (m_currentSpeed (snd (Aircraft_updateSpeed rnd speedDelta a)))"
    and "dle (m_currentSpeed (snd (Aircraft_updateSpeed rnd speedDelta a)))
           (Finite (max_lim limits))"
    and "Aircraft_isSpeedValid (snd (Aircraft_updateSpeed rnd speedDelta a))"
  using table_ordered [OF lim] lim sum num
  by (cases s; auto simp: Aircraft_updateSpeed_def Aircraft_isSpeedValid_def clamp_def Let_def)+

lemma setSpeed_stores:
  "Aircraft_setSpeed v a = (True, a\<lparr>m_currentSpeed := v\<rparr>)"
  by (simp add: Aircraft_setSpeed_def)

text \<open>
  C10. If the current phase of an aircraft has an entry in the speed-limit table,
  \<^verbatim>\<open>updateSpeed(delta)\<close> is to store the old speed plus delta clamped into the bounds
  of the phase, so that the call alone never places the speed outside them. The code
  does so whenever the sum is a number or an infinity, but not when the sum is NaN:
  \<^verbatim>\<open>std::clamp\<close> compares with \<^verbatim>\<open><\<close>, both comparisons with NaN are false, and the NaN
  is stored. For the aircraft holding at 500 km/h (bounds 400 to 600),
  \<^verbatim>\<open>updateSpeed(NaN)\<close> returns true and leaves the speed NaN, which is neither at least
  400 nor at most 600, so \<^verbatim>\<open>isSpeedValid\<close> is false afterwards; the same happens for
  \<^verbatim>\<open>updateSpeed(-infinity)\<close> on an aircraft whose speed is \<^verbatim>\<open>+infinity\<close>. This holds
  whatever the rounding \<open>rnd\<close> of the addition.
\<close>

theorem updateSpeed_stores_nan:
  "map_of SPEED_LIMITS (m_currentPhase cargo_north) = Some \<lparr>min_lim = 400, max_lim = 600\<rparr>
   \<and> m_currentSpeed cargo_north = Finite 500
   \<and> Aircraft_isSpeedValid cargo_north = True
   \<and> Aircraft_updateSpeed rnd NaN cargo_north = (True, cargo_north\<lparr>m_currentSpeed := NaN\<rparr>)
   \<and> dle (Finite 400) (m_currentSpeed (snd (Aircraft_updateSpeed rnd NaN cargo_north))) = False
   \<and> dle (m_currentSpeed (snd (Aircraft_updateSpeed rnd NaN cargo_north))) (Finite 600) = False
   \<and> Aircraft_isSpeedValid (snd (Aircraft_updateSpeed rnd NaN cargo_north)) = False
   \<and> m_currentSpeed
        (snd (Aircraft_updateSpeed rnd NegInf (snd (Aircraft_setSpeed PosInf cargo_north)))) = NaN"
  by (simp add: Aircraft_updateSpeed_def Aircraft_setSpeed_def Aircraft_isSpeedValid_def
        clamp_def example_defs Let_def)


end
